theory Spec2Isabelle
  imports Main "HOL-Library.Word"
begin

section \<open>Thread-Metric porting layer for RT-Thread\<close>

text \<open>
  The repository holds two variants of the porting layer:
  \<^item> \<^verbatim>\<open>src/unnamed/part_000\<close>: thread control blocks allocated by the kernel
    (\<^verbatim>\<open>rt_thread_create\<close>), a table of thread handles, \<^verbatim>\<open>trap_flag\<close>,
    \<^verbatim>\<open>tm_thread_detach\<close> and \<^verbatim>\<open>SVC_Handler\<close>. Its functions keep their names here.
  \<^item> \<^verbatim>\<open>src/src/tm_porting_layer_rtthread.c\<close>: static thread control blocks
    (\<^verbatim>\<open>rt_thread_init\<close>). Where its text differs from the first file, its functions
    carry the suffix \<open>_static\<close>.
  Every function takes the state of the tables and of the kernel and returns an
  outcome: a returned value with the new state, a call that blocks the caller, or a
  fault of the C program (an index outside a table, a null pointer dereferenced).
\<close>

subsection \<open>Values\<close>

type_synonym byte = "8 word"

text \<open>The entry function of a thread is opaque: it is named, never run.\<close>

type_synonym entry = nat

text \<open>
  Addresses. \<open>Obj n\<close> is the n-th object the kernel allocated and \<open>Stack_of n\<close> the
  stack it allocated with it. The other constructors are the addresses of the static
  arrays of the two files: \<open>Sem_slot i\<close> is \<^verbatim>\<open>&test_sem[i]\<close>, \<open>Msgq_slot i\<close> is
  \<^verbatim>\<open>&test_msgq[i]\<close>, \<open>Msgq_buf i\<close> is \<^verbatim>\<open>&test_msgq_buffer[i][0][0]\<close>, \<open>Slab_slot i\<close> is
  \<^verbatim>\<open>&test_slab[i]\<close>, \<open>Slab_buf i n\<close> is \<^verbatim>\<open>&test_slab_buffer[i][n]\<close>, \<open>Thread_slot i\<close> is
  \<^verbatim>\<open>&test_thread[i]\<close> and \<open>Stack_slot i\<close> is \<^verbatim>\<open>test_stack[i]\<close>. A pointer is an
  \<open>addr option\<close>, \<open>None\<close> being the null pointer.
\<close>

datatype addr =
    Obj nat
  | Stack_of nat
  | Thread_slot nat
  | Stack_slot nat
  | Sem_slot nat
  | Msgq_slot nat
  | Msgq_buf nat
  | Slab_slot nat
  | Slab_buf nat nat

text \<open>
  Modelled from the spec: \<^verbatim>\<open>tm_api.h\<close> is not among the sources; the spec gives every
  operation a two-valued status, success or error.
\<close>

datatype tm_status = TM_SUCCESS | TM_ERROR

text \<open>
  Modelled from the spec: \<^verbatim>\<open>rtthread.h\<close> is not among the sources. \<open>RT_EOK\<close> is the
  kernel's success code, the others are its error codes.
\<close>

datatype rt_err_t = RT_EOK | RT_ERROR | RT_ETIMEOUT | RT_EFULL

text \<open>
  Modelled from the spec: the two waiting policies of \<^verbatim>\<open>rtthread.h\<close> the sources name,
  never to wait and to wait without limit (spec section 4.3).
\<close>

datatype wait = RT_WAITING_NO | RT_WAITING_FOREVER

text \<open>
  Modelled from the spec: the order in which the kernel wakes the threads that wait on
  an object, by arrival or by priority (spec section 3). No call of the porting layer
  waits on a queue, so the flag changes nothing here.
\<close>

datatype ipc_flag = RT_IPC_FLAG_FIFO | RT_IPC_FLAG_PRIO

subsection \<open>The kernel\<close>

text \<open>
  Modelled from the spec: the RT-Thread kernel, the processor's trap entry and the
  benchmark's two interrupt handlers are not among the sources. Every definition of
  this subsection is a model of one of them and follows the spec's data model
  (sections 3 to 5): a thread is initialised, ready (or running), suspended or closed;
  a semaphore is a counter; a message queue is a bounded first-in first-out buffer of
  fixed-size messages; a memory pool is a set of fixed-size blocks over a buffer. A
  kernel call whose pointer names no object of its kind returns an error code (spec
  section 7: an operation on a slot in the wrong state is an error, not an abort).
  Every change of a thread's state, every call of the scheduler, every trap and every
  handler run is recorded in \<open>k_log\<close>, oldest first.
\<close>

text \<open>
  Modelled from the spec: the states of a thread (section 3). \<open>Ready\<close> stands for ready
  or running: which thread the processor runs is not modelled.
\<close>

datatype thread_stat = Init | Ready | Suspended | Closed

text \<open>
  Modelled from the spec: the kernel's thread control block, \<^verbatim>\<open>struct rt_thread\<close>. Of its
  fields the source reads \<^verbatim>\<open>stack_addr\<close> alone.
\<close>

record thread_obj =
  t_stat :: thread_stat
  t_priority :: byte
  t_entry :: entry
  stack_addr :: "addr option"

text \<open>
  Modelled from the spec: the kernel's message queue, \<^verbatim>\<open>struct rt_messagequeue\<close>: the
  size of a message, the number of messages it has room for and the messages it
  holds, oldest first.
\<close>

record mq_obj =
  msg_size :: nat
  max_msgs :: nat
  entries :: "byte list list"

text \<open>
  Modelled from the spec: the kernel's memory pool, \<^verbatim>\<open>struct rt_mempool\<close>: the size of a
  block and the blocks that are free, the next one to hand out first.
\<close>

record mp_obj =
  block_size :: nat
  free_list :: "addr list"

text \<open>Modelled from the spec: what is recorded of the kernel, the trap and the handlers.\<close>

datatype event =
    Thread_initialised addr
  | Thread_started addr
  | Thread_suspended addr
  | Thread_resumed addr
  | Thread_deleted addr
  | Scheduler_called
  | Thread_yielded
  | Thread_delayed int
  | Trap byte
  | Interrupt_handler_run
  | Preemption_handler_run

text \<open>
  Modelled from the spec: the state of the kernel. Its objects by address, the pool
  each block handed out belongs to, the number of objects allocated so far, the number
  its heap still has room for, and the record of events.
\<close>

record kernel =
  k_threads :: "addr \<Rightarrow> thread_obj option"
  k_sems :: "addr \<Rightarrow> nat option"
  k_mqs :: "addr \<Rightarrow> mq_obj option"
  k_mps :: "addr \<Rightarrow> mp_obj option"
  k_owner :: "addr \<Rightarrow> addr option"
  k_next :: nat
  k_heap :: nat
  k_log :: "event list"

text \<open>Modelled from the spec: one more event in the record.\<close>

definition log_event :: "event \<Rightarrow> kernel \<Rightarrow> kernel" where
  "log_event ev k = k\<lparr>k_log := k_log k @ [ev]\<rparr>"

text \<open>Modelled from the spec: the thread object \<open>th\<close> at \<open>a\<close> enters the state \<open>st\<close>.\<close>

definition set_stat :: "addr \<Rightarrow> thread_obj \<Rightarrow> thread_stat \<Rightarrow> kernel \<Rightarrow> kernel" where
  "set_stat a th st k = k\<lparr>k_threads := (k_threads k)(a \<mapsto> th\<lparr>t_stat := st\<rparr>)\<rparr>"

text \<open>
  Modelled from the spec: \<^verbatim>\<open>rt_thread_create\<close>. A new thread object with its stack, in
  the initialised state; the null pointer when the kernel heap (\<open>k_heap\<close> objects left)
  is exhausted. The priority is not examined.
\<close>

definition rt_thread_create :: "entry \<Rightarrow> nat \<Rightarrow> byte \<Rightarrow> nat \<Rightarrow> kernel \<Rightarrow> addr option \<times> kernel" where
  "rt_thread_create ent stack_size priority tick k =
     (if k_heap k = 0 then (None, k)
      else (Some (Obj (k_next k)),
            log_event (Thread_initialised (Obj (k_next k)))
              (k\<lparr>k_threads := (k_threads k)(Obj (k_next k) \<mapsto>
                     \<lparr>t_stat = Init, t_priority = priority, t_entry = ent,
                      stack_addr = Some (Stack_of (k_next k))\<rparr>),
                  k_next := Suc (k_next k),
                  k_heap := k_heap k - 1\<rparr>)))"

text \<open>
  Modelled from the spec: \<^verbatim>\<open>rt_thread_init\<close>. A thread object in storage the caller owns,
  on the caller's stack, in the initialised state.
\<close>

definition rt_thread_init :: "addr \<Rightarrow> entry \<Rightarrow> addr \<Rightarrow> nat \<Rightarrow> byte \<Rightarrow> nat \<Rightarrow> kernel \<Rightarrow> rt_err_t \<times> kernel" where
  "rt_thread_init a ent stack_start stack_size priority tick k =
     (RT_EOK,
      log_event (Thread_initialised a)
        (k\<lparr>k_threads := (k_threads k)(a \<mapsto>
               \<lparr>t_stat = Init, t_priority = priority, t_entry = ent,
                stack_addr = Some stack_start\<rparr>)\<rparr>))"

text \<open>Modelled from the spec: the thread object a pointer names, if it names one.\<close>

definition thread_at :: "addr option \<Rightarrow> kernel \<Rightarrow> (addr \<times> thread_obj) option" where
  "thread_at t k =
     (case t of None \<Rightarrow> None
      | Some a \<Rightarrow> (case k_threads k a of None \<Rightarrow> None | Some th \<Rightarrow> Some (a, th)))"

text \<open>
  Modelled from the spec: \<^verbatim>\<open>rt_thread_startup\<close>. An initialised thread becomes ready;
  anything else is an error.
\<close>

definition rt_thread_startup :: "addr option \<Rightarrow> kernel \<Rightarrow> rt_err_t \<times> kernel" where
  "rt_thread_startup t k =
     (case thread_at t k of None \<Rightarrow> (RT_ERROR, k)
      | Some (a, th) \<Rightarrow>
          if t_stat th = Init then (RT_EOK, log_event (Thread_started a) (set_stat a th Ready k))
          else (RT_ERROR, k))"

text \<open>
  Modelled from the spec: \<^verbatim>\<open>rt_thread_suspend\<close>. A ready thread becomes suspended;
  anything else is an error (section 4.2: suspending a suspended thread is not
  silently accepted).
\<close>

definition rt_thread_suspend :: "addr option \<Rightarrow> kernel \<Rightarrow> rt_err_t \<times> kernel" where
  "rt_thread_suspend t k =
     (case thread_at t k of None \<Rightarrow> (RT_ERROR, k)
      | Some (a, th) \<Rightarrow>
          if t_stat th = Ready then (RT_EOK, log_event (Thread_suspended a) (set_stat a th Suspended k))
          else (RT_ERROR, k))"

text \<open>
  Modelled from the spec: \<^verbatim>\<open>rt_thread_resume\<close>. A suspended thread becomes ready;
  anything else is an error (section 4.2).
\<close>

definition rt_thread_resume :: "addr option \<Rightarrow> kernel \<Rightarrow> rt_err_t \<times> kernel" where
  "rt_thread_resume t k =
     (case thread_at t k of None \<Rightarrow> (RT_ERROR, k)
      | Some (a, th) \<Rightarrow>
          if t_stat th = Suspended then (RT_EOK, log_event (Thread_resumed a) (set_stat a th Ready k))
          else (RT_ERROR, k))"

text \<open>
  Modelled from the spec: \<^verbatim>\<open>rt_thread_delete\<close>. The thread object is destroyed: it is
  closed, for good.
\<close>

definition rt_thread_delete :: "addr option \<Rightarrow> kernel \<Rightarrow> rt_err_t \<times> kernel" where
  "rt_thread_delete t k =
     (case thread_at t k of None \<Rightarrow> (RT_ERROR, k)
      | Some (a, th) \<Rightarrow>
          if t_stat th = Closed then (RT_ERROR, k)
          else (RT_EOK, log_event (Thread_deleted a) (set_stat a th Closed k)))"

text \<open>
  Modelled from the spec: \<^verbatim>\<open>rt_schedule\<close>, \<^verbatim>\<open>rt_thread_yield\<close> and \<^verbatim>\<open>rt_thread_mdelay\<close> hand
  the processor to the scheduler. Which thread runs next is not modelled: that the
  call was made is recorded.
\<close>

definition rt_schedule :: "kernel \<Rightarrow> kernel" where
  "rt_schedule k = log_event Scheduler_called k"

definition rt_thread_yield :: "kernel \<Rightarrow> kernel" where
  "rt_thread_yield k = log_event Thread_yielded k"

definition rt_thread_mdelay :: "int \<Rightarrow> kernel \<Rightarrow> kernel" where
  "rt_thread_mdelay ms k = log_event (Thread_delayed ms) k"

text \<open>
  Modelled from the spec: \<^verbatim>\<open>rt_sem_create\<close>. A new counter with the given value; the
  null pointer when the heap is exhausted.
\<close>

definition rt_sem_create :: "nat \<Rightarrow> ipc_flag \<Rightarrow> kernel \<Rightarrow> addr option \<times> kernel" where
  "rt_sem_create val flag k =
     (if k_heap k = 0 then (None, k)
      else (Some (Obj (k_next k)),
            k\<lparr>k_sems := (k_sems k)(Obj (k_next k) \<mapsto> val),
              k_next := Suc (k_next k),
              k_heap := k_heap k - 1\<rparr>))"

text \<open>
  Modelled from the spec: \<^verbatim>\<open>rt_sem_take\<close>. Takes one unit of a positive counter. On a
  counter at zero the call fails at once under \<open>RT_WAITING_NO\<close> and suspends the caller
  under \<open>RT_WAITING_FOREVER\<close>: the result \<open>None\<close> is the call that does not return.
\<close>

definition rt_sem_take :: "addr option \<Rightarrow> wait \<Rightarrow> kernel \<Rightarrow> (rt_err_t \<times> kernel) option" where
  "rt_sem_take sem time k =
     (case sem of None \<Rightarrow> Some (RT_ERROR, k)
      | Some a \<Rightarrow>
          (case k_sems k a of None \<Rightarrow> Some (RT_ERROR, k)
           | Some v \<Rightarrow>
               if 0 < v then Some (RT_EOK, k\<lparr>k_sems := (k_sems k)(a \<mapsto> v - 1)\<rparr>)
               else (case time of RT_WAITING_NO \<Rightarrow> Some (RT_ETIMEOUT, k)
                     | RT_WAITING_FOREVER \<Rightarrow> None)))"

text \<open>Modelled from the spec: \<^verbatim>\<open>rt_sem_release\<close>. One unit more in the counter.\<close>

definition rt_sem_release :: "addr option \<Rightarrow> kernel \<Rightarrow> rt_err_t \<times> kernel" where
  "rt_sem_release sem k =
     (case sem of None \<Rightarrow> (RT_ERROR, k)
      | Some a \<Rightarrow>
          (case k_sems k a of None \<Rightarrow> (RT_ERROR, k)
           | Some v \<Rightarrow> (RT_EOK, k\<lparr>k_sems := (k_sems k)(a \<mapsto> Suc v)\<rparr>)))"

text \<open>
  Modelled from the spec: \<^verbatim>\<open>rt_mq_init\<close>. An empty queue in storage the caller owns. The
  spec counts a buffer of \<open>n * m\<close> bytes as \<open>n\<close> messages of \<open>m\<close> bytes (section 3);
  bookkeeping the kernel may keep inside the buffer is not part of the spec and is
  not modelled.
\<close>

definition rt_mq_init :: "addr \<Rightarrow> addr \<Rightarrow> nat \<Rightarrow> nat \<Rightarrow> ipc_flag \<Rightarrow> kernel \<Rightarrow> rt_err_t \<times> kernel" where
  "rt_mq_init mq msgpool msz pool_size flag k =
     (RT_EOK,
      k\<lparr>k_mqs := (k_mqs k)(mq \<mapsto>
           \<lparr>msg_size = msz, max_msgs = pool_size div msz, entries = []\<rparr>)\<rparr>)"

text \<open>
  Modelled from the spec: \<^verbatim>\<open>rt_mq_send\<close>. Copies \<open>sz\<close> bytes to the tail of the queue;
  on a full queue it fails and never waits.
\<close>

definition rt_mq_send :: "addr option \<Rightarrow> byte list \<Rightarrow> nat \<Rightarrow> kernel \<Rightarrow> rt_err_t \<times> kernel" where
  "rt_mq_send mq buffer sz k =
     (case mq of None \<Rightarrow> (RT_ERROR, k)
      | Some a \<Rightarrow>
          (case k_mqs k a of None \<Rightarrow> (RT_ERROR, k)
           | Some q \<Rightarrow>
               if msg_size q < sz then (RT_ERROR, k)
               else if max_msgs q \<le> length (entries q) then (RT_EFULL, k)
               else (RT_EOK,
                     k\<lparr>k_mqs := (k_mqs k)(a \<mapsto> q\<lparr>entries := entries q @ [take sz buffer]\<rparr>)\<rparr>)))"

text \<open>
  Modelled from the spec: \<^verbatim>\<open>rt_mq_recv\<close>. Removes the message at the head and hands out
  its first \<open>sz\<close> bytes, the bytes stored through the caller's pointer. On an empty
  queue the call fails at once under \<open>RT_WAITING_NO\<close> and does not return (\<open>None\<close>)
  under \<open>RT_WAITING_FOREVER\<close>.
\<close>

definition rt_mq_recv :: "addr option \<Rightarrow> nat \<Rightarrow> wait \<Rightarrow> kernel \<Rightarrow> (rt_err_t \<times> byte list option \<times> kernel) option" where
  "rt_mq_recv mq sz time k =
     (case mq of None \<Rightarrow> Some (RT_ERROR, None, k)
      | Some a \<Rightarrow>
          (case k_mqs k a of None \<Rightarrow> Some (RT_ERROR, None, k)
           | Some q \<Rightarrow>
               (case entries q of
                  [] \<Rightarrow> (case time of RT_WAITING_NO \<Rightarrow> Some (RT_ETIMEOUT, None, k)
                         | RT_WAITING_FOREVER \<Rightarrow> None)
                | m # ms \<Rightarrow>
                    Some (RT_EOK, Some (take sz m),
                          k\<lparr>k_mqs := (k_mqs k)(a \<mapsto> q\<lparr>entries := ms\<rparr>)\<rparr>))))"

text \<open>Modelled from the spec: the address \<open>m\<close> bytes further into a pool buffer.\<close>

fun shift :: "addr \<Rightarrow> nat \<Rightarrow> addr" where
  "shift (Slab_buf i n) m = Slab_buf i (n + m)"
| "shift a m = a"

text \<open>
  Modelled from the spec: \<^verbatim>\<open>rt_mp_init\<close>. A pool in storage the caller owns, all of its
  blocks free. As for the queue, a buffer of \<open>n * b\<close> bytes counts as \<open>n\<close> blocks of \<open>b\<close>
  bytes (section 3); a header the kernel may keep with each block is not modelled.
\<close>

definition rt_mp_init :: "addr \<Rightarrow> addr \<Rightarrow> nat \<Rightarrow> nat \<Rightarrow> kernel \<Rightarrow> rt_err_t \<times> kernel" where
  "rt_mp_init mp start sz bsz k =
     (RT_EOK,
      k\<lparr>k_mps := (k_mps k)(mp \<mapsto>
           \<lparr>block_size = bsz,
            free_list = map (\<lambda>j. shift start (j * bsz)) [0..<sz div bsz]\<rparr>)\<rparr>)"

text \<open>
  Modelled from the spec: \<^verbatim>\<open>rt_mp_alloc\<close>. Hands out the block at the head of the free
  list and notes the pool it belongs to; the null pointer at once when no block is
  free under \<open>RT_WAITING_NO\<close>, no return (\<open>None\<close>) under \<open>RT_WAITING_FOREVER\<close>.
\<close>

definition rt_mp_alloc :: "addr option \<Rightarrow> wait \<Rightarrow> kernel \<Rightarrow> (addr option \<times> kernel) option" where
  "rt_mp_alloc mp time k =
     (case mp of None \<Rightarrow> Some (None, k)
      | Some a \<Rightarrow>
          (case k_mps k a of None \<Rightarrow> Some (None, k)
           | Some p \<Rightarrow>
               (case free_list p of
                  [] \<Rightarrow> (case time of RT_WAITING_NO \<Rightarrow> Some (None, k)
                         | RT_WAITING_FOREVER \<Rightarrow> None)
                | b # bs \<Rightarrow>
                    Some (Some b,
                          k\<lparr>k_mps := (k_mps k)(a \<mapsto> p\<lparr>free_list := bs\<rparr>),
                            k_owner := (k_owner k)(b \<mapsto> a)\<rparr>))))"

text \<open>
  Modelled from the spec: \<^verbatim>\<open>rt_mp_free\<close>. Puts the block back at the head of the free
  list of the pool noted for it (section 4.5: the pool is recovered from the block,
  not from the caller); the null pointer and a block no pool handed out are ignored.
\<close>

definition rt_mp_free :: "addr option \<Rightarrow> kernel \<Rightarrow> kernel" where
  "rt_mp_free block k =
     (case block of None \<Rightarrow> k
      | Some b \<Rightarrow>
          (case k_owner k b of None \<Rightarrow> k
           | Some a \<Rightarrow>
               (case k_mps k a of None \<Rightarrow> k
                | Some p \<Rightarrow>
                    k\<lparr>k_mps := (k_mps k)(a \<mapsto> p\<lparr>free_list := b # free_list p\<rparr>),
                      k_owner := (k_owner k)(b := None)\<rparr>)))"

text \<open>
  Modelled from the spec: \<^verbatim>\<open>tm_interrupt_handler\<close> and \<^verbatim>\<open>tm_interrupt_preemption_handler\<close>,
  the two handlers of the benchmark (\<^verbatim>\<open>extern\<close> in the source, section 4.6). These two
  definitions record that the handler ran. The work a handler does when it runs,
  calls of \<^verbatim>\<open>tm_thread_resume\<close> that make threads ready, belongs to the benchmark: it is
  the \<open>harness\<close> of the last subsection of the definitions, and \<open>exec\<close> runs it with the
  trap.
\<close>

definition tm_interrupt_handler :: "kernel \<Rightarrow> kernel" where
  "tm_interrupt_handler k = log_event Interrupt_handler_run k"

definition tm_interrupt_preemption_handler :: "kernel \<Rightarrow> kernel" where
  "tm_interrupt_preemption_handler k = log_event Preemption_handler_run k"

subsection \<open>The state of the porting layer\<close>

definition TM_TEST_NUM_THREADS :: nat where "TM_TEST_NUM_THREADS = 10"
definition TM_TEST_STACK_SIZE :: nat where "TM_TEST_STACK_SIZE = 1024"
definition TM_TEST_NUM_SEMAPHORES :: nat where "TM_TEST_NUM_SEMAPHORES = 4"
definition TM_TEST_NUM_MESSAGE_QUEUES :: nat where "TM_TEST_NUM_MESSAGE_QUEUES = 4"
definition TM_TEST_NUM_SLABS :: nat where "TM_TEST_NUM_SLABS = 4"

text \<open>
  \<open>test_thread\<close> and \<open>test_sem\<close> are the tables of handles (null at program start);
  \<open>trap_flag\<close> is the \<^verbatim>\<open>extern unsigned int\<close> the benchmark sets. The message queues,
  the pools and, in the static variant, the threads are kernel objects at the
  addresses of their table slots, so they live in \<open>kern\<close>.
\<close>

record state =
  test_thread :: "nat \<Rightarrow> addr option"
  test_sem :: "nat \<Rightarrow> addr option"
  trap_flag :: "32 word"
  kern :: kernel

datatype fault = Out_of_bounds | Null_dereference | Invalid_pointer | Signed_overflow

datatype 'a result = Returns 'a state | Blocks state | Fault fault

text \<open>
  An \<^verbatim>\<open>int\<close> used as an index into an array of \<open>n\<close> elements: C leaves an index
  outside \<open>0..n-1\<close> undefined, which is \<open>None\<close> here and a \<open>Fault\<close> in every function
  that indexes with it.
\<close>

definition table_index :: "nat \<Rightarrow> int \<Rightarrow> nat option" where
  "table_index n i = (if 0 \<le> i \<and> i < int n then Some (nat i) else None)"

definition status_of :: "rt_err_t \<Rightarrow> tm_status" where
  "status_of r = (if r = RT_EOK then TM_SUCCESS else TM_ERROR)"

definition initial_kernel :: "nat \<Rightarrow> kernel" where
  "initial_kernel heap =
     \<lparr>k_threads = (\<lambda>_. None), k_sems = (\<lambda>_. None), k_mqs = (\<lambda>_. None),
      k_mps = (\<lambda>_. None), k_owner = (\<lambda>_. None), k_next = 0, k_heap = heap, k_log = []\<rparr>"

text \<open>Program start: static storage is zero, the kernel heap holds \<open>heap\<close> objects.\<close>

definition initial_state :: "nat \<Rightarrow> 32 word \<Rightarrow> state" where
  "initial_state heap flag =
     \<lparr>test_thread = (\<lambda>_. None), test_sem = (\<lambda>_. None), trap_flag = flag,
      kern = initial_kernel heap\<rparr>"

subsection \<open>The porting layer of \<^verbatim>\<open>src/unnamed/part_000\<close>\<close>

definition tm_initialize :: "(state \<Rightarrow> unit result) \<Rightarrow> state \<Rightarrow> unit result" where
  "tm_initialize test_initialization_function s = test_initialization_function s"

text \<open>
  The handle is stored in the table before it is tested, so a failed creation leaves
  the null pointer in the slot. The \<^verbatim>\<open>int\<close> priority is converted to the kernel's
  \<^verbatim>\<open>rt_uint8_t\<close>. The results of \<^verbatim>\<open>rt_thread_startup\<close> and \<^verbatim>\<open>rt_thread_suspend\<close> are
  dropped, as in the source.
\<close>

definition tm_thread_create :: "int \<Rightarrow> int \<Rightarrow> entry \<Rightarrow> state \<Rightarrow> tm_status result" where
  "tm_thread_create thread_id priority entry_function s =
     (case table_index TM_TEST_NUM_THREADS thread_id of
        None \<Rightarrow> Fault Out_of_bounds
      | Some i \<Rightarrow>
          (let (t, k1) = rt_thread_create entry_function TM_TEST_STACK_SIZE
                           (word_of_int priority) 20 (kern s);
               s1 = s\<lparr>test_thread := (test_thread s)(i := t), kern := k1\<rparr>
           in if test_thread s1 i \<noteq> None then
                (let k2 = snd (rt_thread_startup (test_thread s1 i) (kern s1));
                     k3 = snd (rt_thread_suspend (test_thread s1 i) k2)
                 in Returns TM_SUCCESS (s1\<lparr>kern := k3\<rparr>))
              else Returns TM_ERROR s1))"

definition tm_thread_resume :: "int \<Rightarrow> state \<Rightarrow> tm_status result" where
  "tm_thread_resume thread_id s =
     (case table_index TM_TEST_NUM_THREADS thread_id of
        None \<Rightarrow> Fault Out_of_bounds
      | Some i \<Rightarrow>
          (let (result, k) = rt_thread_resume (test_thread s i) (kern s)
           in Returns (status_of result) (s\<lparr>kern := k\<rparr>)))"

definition tm_thread_suspend :: "int \<Rightarrow> state \<Rightarrow> tm_status result" where
  "tm_thread_suspend thread_id s =
     (case table_index TM_TEST_NUM_THREADS thread_id of
        None \<Rightarrow> Fault Out_of_bounds
      | Some i \<Rightarrow>
          (let (result, k) = rt_thread_suspend (test_thread s i) (kern s);
               k' = rt_schedule k
           in Returns (status_of result) (s\<lparr>kern := k'\<rparr>)))"

definition tm_thread_relinquish :: "state \<Rightarrow> unit result" where
  "tm_thread_relinquish s = Returns () (s\<lparr>kern := rt_thread_yield (kern s)\<rparr>)"

text \<open>\<^verbatim>\<open>seconds * 1000\<close> is a product of 32-bit \<^verbatim>\<open>int\<close>s: outside their range it is undefined.\<close>

definition tm_thread_sleep :: "int \<Rightarrow> state \<Rightarrow> unit result" where
  "tm_thread_sleep seconds s =
     (if - (2 ^ 31) \<le> seconds * 1000 \<and> seconds * 1000 < 2 ^ 31
      then Returns () (s\<lparr>kern := rt_thread_mdelay (seconds * 1000) (kern s)\<rparr>)
      else Fault Signed_overflow)"

text \<open>\<^verbatim>\<open>sizeof(test_msgq_buffer[queue_id])\<close> is \<open>8 * 16\<close>.\<close>

definition tm_queue_create :: "int \<Rightarrow> state \<Rightarrow> tm_status result" where
  "tm_queue_create queue_id s =
     (case table_index TM_TEST_NUM_MESSAGE_QUEUES queue_id of
        None \<Rightarrow> Fault Out_of_bounds
      | Some i \<Rightarrow>
          (let (result, k) = rt_mq_init (Msgq_slot i) (Msgq_buf i) 16 (8 * 16)
                               RT_IPC_FLAG_PRIO (kern s)
           in Returns (status_of result) (s\<lparr>kern := k\<rparr>)))"

text \<open>\<open>message\<close> is the bytes at \<^verbatim>\<open>message_ptr\<close>.\<close>

definition tm_queue_send :: "int \<Rightarrow> byte list \<Rightarrow> state \<Rightarrow> tm_status result" where
  "tm_queue_send queue_id message s =
     (case table_index TM_TEST_NUM_MESSAGE_QUEUES queue_id of
        None \<Rightarrow> Fault Out_of_bounds
      | Some i \<Rightarrow>
          (let (result, k) = rt_mq_send (Some (Msgq_slot i)) message 16 (kern s)
           in Returns (status_of result) (s\<lparr>kern := k\<rparr>)))"

text \<open>
  The second component of the value is what the call stored through \<^verbatim>\<open>message_ptr\<close>:
  the bytes received, or \<open>None\<close> when nothing was stored.
\<close>

definition tm_queue_receive :: "int \<Rightarrow> state \<Rightarrow> (tm_status \<times> byte list option) result" where
  "tm_queue_receive queue_id s =
     (case table_index TM_TEST_NUM_MESSAGE_QUEUES queue_id of
        None \<Rightarrow> Fault Out_of_bounds
      | Some i \<Rightarrow>
          (case rt_mq_recv (Some (Msgq_slot i)) 16 RT_WAITING_NO (kern s) of
             None \<Rightarrow> Blocks s
           | Some (result, stored, k) \<Rightarrow> Returns (status_of result, stored) (s\<lparr>kern := k\<rparr>)))"

definition tm_semaphore_create :: "int \<Rightarrow> state \<Rightarrow> tm_status result" where
  "tm_semaphore_create semaphore_id s =
     (case table_index TM_TEST_NUM_SEMAPHORES semaphore_id of
        None \<Rightarrow> Fault Out_of_bounds
      | Some i \<Rightarrow>
          (let (sem, k) = rt_sem_create 1 RT_IPC_FLAG_PRIO (kern s);
               s1 = s\<lparr>test_sem := (test_sem s)(i := sem), kern := k\<rparr>
           in Returns (if test_sem s1 i \<noteq> None then TM_SUCCESS else TM_ERROR) s1))"

definition tm_semaphore_get :: "int \<Rightarrow> state \<Rightarrow> tm_status result" where
  "tm_semaphore_get semaphore_id s =
     (case table_index TM_TEST_NUM_SEMAPHORES semaphore_id of
        None \<Rightarrow> Fault Out_of_bounds
      | Some i \<Rightarrow>
          (case rt_sem_take (test_sem s i) RT_WAITING_FOREVER (kern s) of
             None \<Rightarrow> Blocks s
           | Some (result, k) \<Rightarrow> Returns (status_of result) (s\<lparr>kern := k\<rparr>)))"

definition tm_semaphore_put :: "int \<Rightarrow> state \<Rightarrow> tm_status result" where
  "tm_semaphore_put semaphore_id s =
     (case table_index TM_TEST_NUM_SEMAPHORES semaphore_id of
        None \<Rightarrow> Fault Out_of_bounds
      | Some i \<Rightarrow>
          (let (result, k) = rt_sem_release (test_sem s i) (kern s)
           in Returns (status_of result) (s\<lparr>kern := k\<rparr>)))"

text \<open>
  \<^verbatim>\<open>SVC_Handler\<close>. \<open>stack_pointer\<close> is the words at the process stack pointer, \<open>mem\<close> the
  bytes of memory: \<^verbatim>\<open>stack_pointer[6]\<close> is read as an address and the byte two below
  it is the number of the trap.
\<close>

definition SVC_Handler :: "32 word list \<Rightarrow> (32 word \<Rightarrow> byte) \<Rightarrow> state \<Rightarrow> unit result" where
  "SVC_Handler stack_pointer mem s =
     (if length stack_pointer \<le> 6 then Fault Out_of_bounds
      else
        (let svc_number = mem (stack_pointer ! 6 - 2)
         in if svc_number = 255 then
              Returns () (s\<lparr>kern := tm_interrupt_preemption_handler (kern s)\<rparr>)
            else if svc_number = 254 then
              Returns () (s\<lparr>kern := tm_interrupt_handler (kern s)\<rparr>)
            else Returns () s))"

text \<open>
  Modelled from the spec: the processor's trap entry (section 4.6). The instruction
  \<^verbatim>\<open>SVC #imm\<close> is two bytes, the immediate first; the processor stacks eight words, the
  seventh of them the address \<open>ra\<close> of the next instruction, and enters the handler.
\<close>

definition svc :: "32 word \<Rightarrow> byte \<Rightarrow> state \<Rightarrow> unit result" where
  "svc ra imm s =
     SVC_Handler (replicate 6 0 @ [ra, 0])
       (\<lambda>a. if a = ra - 2 then imm else if a = ra - 1 then 223 else 0)
       (s\<lparr>kern := log_event (Trap imm) (kern s)\<rparr>)"

text \<open>\<open>ra\<close> is the address that follows the \<^verbatim>\<open>SVC\<close> instruction executed.\<close>

definition tm_cause_interrupt :: "32 word \<Rightarrow> state \<Rightarrow> unit result" where
  "tm_cause_interrupt ra s =
     (if trap_flag s = 255 then svc ra 255 s
      else if trap_flag s = 254 then svc ra 254 s
      else Returns () s)"

text \<open>\<^verbatim>\<open>sizeof(test_slab_buffer[pool_id])\<close> is \<open>8 * 128\<close>.\<close>

definition tm_memory_pool_create :: "int \<Rightarrow> state \<Rightarrow> tm_status result" where
  "tm_memory_pool_create pool_id s =
     (case table_index TM_TEST_NUM_SLABS pool_id of
        None \<Rightarrow> Fault Out_of_bounds
      | Some i \<Rightarrow>
          (let (result, k) = rt_mp_init (Slab_slot i) (Slab_buf i 0) (8 * 128) 128 (kern s)
           in Returns (status_of result) (s\<lparr>kern := k\<rparr>)))"

text \<open>The second component of the value is \<^verbatim>\<open>*memory_ptr\<close> after the call.\<close>

definition tm_memory_pool_allocate :: "int \<Rightarrow> state \<Rightarrow> (tm_status \<times> addr option) result" where
  "tm_memory_pool_allocate pool_id s =
     (case table_index TM_TEST_NUM_SLABS pool_id of
        None \<Rightarrow> Fault Out_of_bounds
      | Some i \<Rightarrow>
          (case rt_mp_alloc (Some (Slab_slot i)) RT_WAITING_NO (kern s) of
             None \<Rightarrow> Blocks s
           | Some (memory, k) \<Rightarrow>
               Returns (if memory \<noteq> None then TM_SUCCESS else TM_ERROR, memory)
                 (s\<lparr>kern := k\<rparr>)))"

text \<open>\<^verbatim>\<open>pool_id\<close> is not used.\<close>

definition tm_memory_pool_deallocate :: "int \<Rightarrow> addr option \<Rightarrow> state \<Rightarrow> tm_status result" where
  "tm_memory_pool_deallocate pool_id memory_ptr s =
     Returns TM_SUCCESS (s\<lparr>kern := rt_mp_free memory_ptr (kern s)\<rparr>)"

text \<open>
  The loop of \<^verbatim>\<open>tm_thread_detach\<close> from index \<open>i\<close> on. \<^verbatim>\<open>(test_thread[i])->stack_addr\<close>
  reads a field through the handle in slot \<open>i\<close>: through the null pointer that is a
  fault.
\<close>

function tm_thread_detach_loop :: "nat \<Rightarrow> state \<Rightarrow> unit result" where
  "tm_thread_detach_loop i s =
     (if i < TM_TEST_NUM_THREADS then
        (case test_thread s i of
           None \<Rightarrow> Fault Null_dereference
         | Some a \<Rightarrow>
             (case k_threads (kern s) a of
                None \<Rightarrow> Fault Invalid_pointer
              | Some th \<Rightarrow>
                  if stack_addr th \<noteq> None then
                    tm_thread_detach_loop (Suc i)
                      (s\<lparr>kern := snd (rt_thread_delete (test_thread s i) (kern s))\<rparr>)
                  else tm_thread_detach_loop (Suc i) s))
      else Returns () s)"
  by pat_completeness auto
termination
  by (relation "measure (\<lambda>(i, s). TM_TEST_NUM_THREADS - i)") auto

declare tm_thread_detach_loop.simps [simp del]

definition tm_thread_detach :: "state \<Rightarrow> unit result" where
  "tm_thread_detach s = tm_thread_detach_loop 0 s"

subsection \<open>The porting layer of \<^verbatim>\<open>src/src/tm_porting_layer_rtthread.c\<close>\<close>

text \<open>
  The functions whose text differs from the first file's. \<^verbatim>\<open>test_thread\<close> is an array of
  thread control blocks here, so a thread is the kernel object at \<open>Thread_slot i\<close>;
  \<^verbatim>\<open>test_sem\<close> is a table of handles as before.

  The queue and pool functions of this file are not embedded, and no definition of
  this theory stands for them. The file declares \<^verbatim>\<open>test_msgq\<close> and \<^verbatim>\<open>test_slab\<close> as arrays
  of handles (\<^verbatim>\<open>rt_mq_t test_msgq[4]\<close>, \<^verbatim>\<open>rt_mp_t test_slab[4]\<close>) and hands \<^verbatim>\<open>&test_msgq[i]\<close>
  and \<^verbatim>\<open>&test_slab[i]\<close> to the kernel as the storage of a control block. The control
  block is larger than the slot of a handle: it overlaps the slots that follow and
  runs past the end of the array, so what these calls do is not defined by C. The
  definitions \<open>tm_queue_create\<close> to \<open>tm_memory_pool_deallocate\<close> above are those of
  \<^verbatim>\<open>src/unnamed/part_000\<close> alone, where the two arrays hold the control blocks.
\<close>

definition tm_thread_create_static :: "int \<Rightarrow> int \<Rightarrow> entry \<Rightarrow> state \<Rightarrow> tm_status result" where
  "tm_thread_create_static thread_id priority entry_function s =
     (case table_index TM_TEST_NUM_THREADS thread_id of
        None \<Rightarrow> Fault Out_of_bounds
      | Some i \<Rightarrow>
          (let (result, k1) = rt_thread_init (Thread_slot i) entry_function (Stack_slot i)
                                TM_TEST_STACK_SIZE (word_of_int priority) 20 (kern s)
           in if result = RT_EOK then
                (let k2 = snd (rt_thread_startup (Some (Thread_slot i)) k1);
                     k3 = snd (rt_thread_suspend (Some (Thread_slot i)) k2)
                 in Returns TM_SUCCESS (s\<lparr>kern := k3\<rparr>))
              else Returns TM_ERROR (s\<lparr>kern := k1\<rparr>)))"

definition tm_thread_resume_static :: "int \<Rightarrow> state \<Rightarrow> tm_status result" where
  "tm_thread_resume_static thread_id s =
     (case table_index TM_TEST_NUM_THREADS thread_id of
        None \<Rightarrow> Fault Out_of_bounds
      | Some i \<Rightarrow>
          (let (result, k) = rt_thread_resume (Some (Thread_slot i)) (kern s)
           in Returns (status_of result) (s\<lparr>kern := k\<rparr>)))"

definition tm_thread_suspend_static :: "int \<Rightarrow> state \<Rightarrow> tm_status result" where
  "tm_thread_suspend_static thread_id s =
     (case table_index TM_TEST_NUM_THREADS thread_id of
        None \<Rightarrow> Fault Out_of_bounds
      | Some i \<Rightarrow>
          (let (result, k) = rt_thread_suspend (Some (Thread_slot i)) (kern s)
           in Returns (status_of result) (s\<lparr>kern := k\<rparr>)))"

definition tm_semaphore_create_static :: "int \<Rightarrow> state \<Rightarrow> tm_status result" where
  "tm_semaphore_create_static semaphore_id s =
     (case table_index TM_TEST_NUM_SEMAPHORES semaphore_id of
        None \<Rightarrow> Fault Out_of_bounds
      | Some i \<Rightarrow>
          (let (sem, k) = rt_sem_create 1 RT_IPC_FLAG_FIFO (kern s);
               s1 = s\<lparr>test_sem := (test_sem s)(i := sem), kern := k\<rparr>
           in Returns (if test_sem s1 i \<noteq> None then TM_SUCCESS else TM_ERROR) s1))"

text \<open>
  The argument of \<^verbatim>\<open>rt_sem_take\<close> and of \<^verbatim>\<open>rt_sem_release\<close> is \<^verbatim>\<open>&test_sem[semaphore_id]\<close>,
  the address of the table's slot, not the handle \<^verbatim>\<open>tm_semaphore_create\<close> stored in it.
\<close>

definition tm_semaphore_get_static :: "int \<Rightarrow> state \<Rightarrow> tm_status result" where
  "tm_semaphore_get_static semaphore_id s =
     (case table_index TM_TEST_NUM_SEMAPHORES semaphore_id of
        None \<Rightarrow> Fault Out_of_bounds
      | Some i \<Rightarrow>
          (case rt_sem_take (Some (Sem_slot i)) RT_WAITING_NO (kern s) of
             None \<Rightarrow> Blocks s
           | Some (result, k) \<Rightarrow> Returns (status_of result) (s\<lparr>kern := k\<rparr>)))"

definition tm_semaphore_put_static :: "int \<Rightarrow> state \<Rightarrow> tm_status result" where
  "tm_semaphore_put_static semaphore_id s =
     (case table_index TM_TEST_NUM_SEMAPHORES semaphore_id of
        None \<Rightarrow> Fault Out_of_bounds
      | Some i \<Rightarrow>
          (let (result, k) = rt_sem_release (Some (Sem_slot i)) (kern s)
           in Returns (status_of result) (s\<lparr>kern := k\<rparr>)))"

text \<open>
  This file executes \<^verbatim>\<open>SVC #255\<close> whatever the benchmark asked for and defines no
  handler of the trap: its comment (line 184) leaves it to the user to have the
  handler of \<^verbatim>\<open>SVC #255\<close> call \<^verbatim>\<open>tm_interrupt_handler\<close>, which is what is taken here.
\<close>

definition tm_cause_interrupt_static :: "state \<Rightarrow> unit result" where
  "tm_cause_interrupt_static s =
     Returns () (s\<lparr>kern := tm_interrupt_handler (log_event (Trap 255) (kern s))\<rparr>)"

subsection \<open>Sequences of calls and what is observed of them\<close>

text \<open>One call after another: the second runs in the state the first returned.\<close>

definition and_then :: "'a result \<Rightarrow> ('a \<Rightarrow> state \<Rightarrow> 'b result) \<Rightarrow> 'b result" where
  "and_then r f =
     (case r of Returns v s \<Rightarrow> f v s | Blocks s \<Rightarrow> Blocks s | Fault e \<Rightarrow> Fault e)"

definition value_of :: "'a result \<Rightarrow> 'a option" where
  "value_of r = (case r of Returns v s \<Rightarrow> Some v | Blocks s \<Rightarrow> None | Fault e \<Rightarrow> None)"

definition log_of :: "'a result \<Rightarrow> event list" where
  "log_of r =
     (case r of Returns v s \<Rightarrow> k_log (kern s) | Blocks s \<Rightarrow> k_log (kern s) | Fault e \<Rightarrow> [])"

text \<open>The state \<open>s\<close> with \<open>evs\<close> added to the kernel's record and nothing else changed.\<close>

definition logged :: "event list \<Rightarrow> state \<Rightarrow> state" where
  "logged evs s = s\<lparr>kern := (kern s)\<lparr>k_log := k_log (kern s) @ evs\<rparr>\<rparr>"

text \<open>
  Modelled from the spec: the benchmark, as far as its handlers go. The benchmark
  calls only the operations of the interface (section 1); of its two handlers, the
  plain one does minimal work and the preemption one makes a thread ready (section
  4.6). The work of a handler is the list of the thread ids it resumes, with
  \<^verbatim>\<open>tm_thread_resume\<close>, each time it runs: the one operation of the interface that makes
  a suspended thread ready.
\<close>

record harness =
  interrupt_resumes :: "int list"
  preemption_resumes :: "int list"

text \<open>The handler's calls of \<open>tm_thread_resume\<close>, in order; their statuses are dropped.\<close>

fun resume_each :: "int list \<Rightarrow> state \<Rightarrow> unit result" where
  "resume_each [] s = Returns () s"
| "resume_each (i # ids) s = and_then (tm_thread_resume i s) (\<lambda>r. resume_each ids)"

fun resume_each_static :: "int list \<Rightarrow> state \<Rightarrow> unit result" where
  "resume_each_static [] s = Returns () s"
| "resume_each_static (i # ids) s =
     and_then (tm_thread_resume_static i s) (\<lambda>r. resume_each_static ids)"

text \<open>
  The work of the handler that \<open>SVC_Handler\<close> runs for the trap \<open>tm_cause_interrupt\<close>
  raises in the state \<open>s\<close>: the preemption handler's for 255, the plain handler's for
  254, none when no trap is raised.
\<close>

definition handler_work :: "harness \<Rightarrow> state \<Rightarrow> int list" where
  "handler_work H s =
     (if trap_flag s = 255 then preemption_resumes H
      else if trap_flag s = 254 then interrupt_resumes H
      else [])"

text \<open>
  The calls of the interface of \<^verbatim>\<open>src/unnamed/part_000\<close> and what they hand back. A call
  of \<open>tm_cause_interrupt\<close> returns when the handler of its trap has run and done its
  work.
\<close>

datatype call =
    Thread_create int int entry
  | Thread_resume int
  | Thread_suspend int
  | Thread_relinquish
  | Thread_sleep int
  | Thread_detach
  | Queue_create int
  | Queue_send int "byte list"
  | Queue_receive int
  | Semaphore_create int
  | Semaphore_get int
  | Semaphore_put int
  | Cause_interrupt "32 word"
  | Memory_pool_create int
  | Memory_pool_allocate int
  | Memory_pool_deallocate int "addr option"

datatype reply =
    Status tm_status
  | Message tm_status "byte list option"
  | Memory tm_status "addr option"
  | Done

fun exec :: "harness \<Rightarrow> call \<Rightarrow> state \<Rightarrow> reply result" where
  "exec H (Thread_create i p e) s =
     and_then (tm_thread_create i p e s) (\<lambda>r. Returns (Status r))"
| "exec H (Thread_resume i) s = and_then (tm_thread_resume i s) (\<lambda>r. Returns (Status r))"
| "exec H (Thread_suspend i) s = and_then (tm_thread_suspend i s) (\<lambda>r. Returns (Status r))"
| "exec H Thread_relinquish s = and_then (tm_thread_relinquish s) (\<lambda>r. Returns Done)"
| "exec H (Thread_sleep n) s = and_then (tm_thread_sleep n s) (\<lambda>r. Returns Done)"
| "exec H Thread_detach s = and_then (tm_thread_detach s) (\<lambda>r. Returns Done)"
| "exec H (Queue_create i) s = and_then (tm_queue_create i s) (\<lambda>r. Returns (Status r))"
| "exec H (Queue_send i m) s = and_then (tm_queue_send i m s) (\<lambda>r. Returns (Status r))"
| "exec H (Queue_receive i) s =
     and_then (tm_queue_receive i s) (\<lambda>r. Returns (Message (fst r) (snd r)))"
| "exec H (Semaphore_create i) s =
     and_then (tm_semaphore_create i s) (\<lambda>r. Returns (Status r))"
| "exec H (Semaphore_get i) s = and_then (tm_semaphore_get i s) (\<lambda>r. Returns (Status r))"
| "exec H (Semaphore_put i) s = and_then (tm_semaphore_put i s) (\<lambda>r. Returns (Status r))"
| "exec H (Cause_interrupt ra) s =
     and_then (tm_cause_interrupt ra s)
       (\<lambda>r s'. and_then (resume_each (handler_work H s) s') (\<lambda>u. Returns Done))"
| "exec H (Memory_pool_create i) s =
     and_then (tm_memory_pool_create i s) (\<lambda>r. Returns (Status r))"
| "exec H (Memory_pool_allocate i) s =
     and_then (tm_memory_pool_allocate i s) (\<lambda>r. Returns (Memory (fst r) (snd r)))"
| "exec H (Memory_pool_deallocate i p) s =
     and_then (tm_memory_pool_deallocate i p s) (\<lambda>r. Returns (Status r))"

fun run :: "harness \<Rightarrow> call list \<Rightarrow> state \<Rightarrow> reply list result" where
  "run H [] s = Returns [] s"
| "run H (c # cs) s =
     and_then (exec H c s) (\<lambda>r s'. and_then (run H cs s') (\<lambda>rs. Returns (r # rs)))"

text \<open>
  The calls of \<^verbatim>\<open>src/src/tm_porting_layer_rtthread.c\<close> that C defines: its thread
  functions, \<open>tm_semaphore_create\<close> and its trap, whose handler calls
  \<^verbatim>\<open>tm_interrupt_handler\<close>. The queue and pool functions of the file are left out, for
  the reason given with the file, and so are \<open>tm_semaphore_get\<close> and \<open>tm_semaphore_put\<close>,
  which hand the kernel the address of a slot of the table where it expects a
  semaphore.
\<close>

datatype static_call =
    Static_thread_create int int entry
  | Static_thread_resume int
  | Static_thread_suspend int
  | Static_thread_relinquish
  | Static_thread_sleep int
  | Static_semaphore_create int
  | Static_cause_interrupt

fun exec_static :: "harness \<Rightarrow> static_call \<Rightarrow> state \<Rightarrow> reply result" where
  "exec_static H (Static_thread_create i p e) s =
     and_then (tm_thread_create_static i p e s) (\<lambda>r. Returns (Status r))"
| "exec_static H (Static_thread_resume i) s =
     and_then (tm_thread_resume_static i s) (\<lambda>r. Returns (Status r))"
| "exec_static H (Static_thread_suspend i) s =
     and_then (tm_thread_suspend_static i s) (\<lambda>r. Returns (Status r))"
| "exec_static H Static_thread_relinquish s =
     and_then (tm_thread_relinquish s) (\<lambda>r. Returns Done)"
| "exec_static H (Static_thread_sleep n) s =
     and_then (tm_thread_sleep n s) (\<lambda>r. Returns Done)"
| "exec_static H (Static_semaphore_create i) s =
     and_then (tm_semaphore_create_static i s) (\<lambda>r. Returns (Status r))"
| "exec_static H Static_cause_interrupt s =
     and_then (tm_cause_interrupt_static s)
       (\<lambda>r s'. and_then (resume_each_static (interrupt_resumes H) s') (\<lambda>u. Returns Done))"

fun run_static :: "harness \<Rightarrow> static_call list \<Rightarrow> state \<Rightarrow> reply list result" where
  "run_static H [] s = Returns [] s"
| "run_static H (c # cs) s =
     and_then (exec_static H c s)
       (\<lambda>r s'. and_then (run_static H cs s') (\<lambda>rs. Returns (r # rs)))"

text \<open>
  Queue \<open>queue_id\<close> is as \<open>tm_queue_create\<close> makes it (messages of 16 bytes, room for 8)
  and holds the messages \<open>ms\<close>, oldest first.
\<close>

definition queue_holds :: "int \<Rightarrow> state \<Rightarrow> byte list list \<Rightarrow> bool" where
  "queue_holds queue_id s ms =
     (case k_mqs (kern s) (Msgq_slot (nat queue_id)) of
        None \<Rightarrow> False
      | Some q \<Rightarrow> msg_size q = 16 \<and> max_msgs q = 8 \<and> entries q = ms)"

text \<open>The state of the thread object at \<open>a\<close>, if there is one.\<close>

definition stat_of :: "state \<Rightarrow> addr \<Rightarrow> thread_stat option" where
  "stat_of s a = map_option t_stat (k_threads (kern s) a)"

text \<open>
  Every handle in the thread table is an object the kernel has allocated: what holds
  at program start and after every call of the interface.
\<close>

definition handles_allocated :: "state \<Rightarrow> bool" where
  "handles_allocated s =
     list_all (\<lambda>j. case test_thread s j of
                     None \<Rightarrow> True
                   | Some (Obj n) \<Rightarrow> n < k_next (kern s)
                   | Some _ \<Rightarrow> False)
       [0..<TM_TEST_NUM_THREADS]"

text \<open>Pool \<open>i\<close> exists and \<open>bs\<close> are its free blocks, the next one to hand out first.\<close>

definition pool_free :: "nat \<Rightarrow> state \<Rightarrow> addr list \<Rightarrow> bool" where
  "pool_free i s bs =
     (case k_mps (kern s) (Slab_slot i) of None \<Rightarrow> False | Some p \<Rightarrow> free_list p = bs)"

text \<open>
  The thread object \<open>Obj n\<close> is suspended or closed, and no slot of the thread table
  but slot \<open>i\<close> holds its handle.
\<close>

definition parked :: "nat \<Rightarrow> nat \<Rightarrow> state \<Rightarrow> bool" where
  "parked n i s =
     (n < k_next (kern s) \<and>
      (stat_of s (Obj n) = Some Suspended \<or> stat_of s (Obj n) = Some Closed) \<and>
      (\<forall>j < TM_TEST_NUM_THREADS. j \<noteq> i \<longrightarrow> test_thread s j \<noteq> Some (Obj n)))"

text \<open>Every slot of the thread table from \<open>i\<close> on holds the handle of a thread object with a stack.\<close>

definition created_from :: "nat \<Rightarrow> state \<Rightarrow> bool" where
  "created_from i s =
     (\<forall>j. i \<le> j \<and> j < TM_TEST_NUM_THREADS \<longrightarrow>
        (\<exists>a th. test_thread s j = Some a \<and> k_threads (kern s) a = Some th \<and>
                stack_addr th \<noteq> None))"

section \<open>Properties\<close>

lemmas kernel_defs =
  log_event_def set_stat_def thread_at_def rt_thread_create_def rt_thread_init_def
  rt_thread_startup_def rt_thread_suspend_def rt_thread_resume_def rt_thread_delete_def
  rt_schedule_def rt_thread_yield_def rt_thread_mdelay_def rt_sem_create_def
  rt_sem_take_def rt_sem_release_def rt_mq_init_def rt_mq_send_def rt_mq_recv_def
  rt_mp_init_def rt_mp_alloc_def rt_mp_free_def tm_interrupt_handler_def
  tm_interrupt_preemption_handler_def

lemmas table_defs =
  table_index_def status_of_def TM_TEST_NUM_THREADS_def TM_TEST_STACK_SIZE_def
  TM_TEST_NUM_SEMAPHORES_def TM_TEST_NUM_MESSAGE_QUEUES_def TM_TEST_NUM_SLABS_def
  initial_state_def initial_kernel_def

lemmas observer_defs = and_then_def value_of_def log_of_def logged_def

lemma logged_Nil: "logged [] s = s"
  by (simp add: logged_def)

subsection \<open>The trap and its handler\<close>

lemma svc_log:
  "svc ra imm s =
     Returns () (logged (Trap imm # (if imm = 255 then [Preemption_handler_run]
                                      else if imm = 254 then [Interrupt_handler_run]
                                      else [])) s)"
  by (simp add: svc_def SVC_Handler_def logged_def kernel_defs Let_def nth_append)

text \<open>
  C2. The handler of the trap runs exactly one of the two handlers of the benchmark,
  once, when the trap's number is one of the two reserved values (255: the
  interrupt-preemption handler, 254: the plain interrupt handler) and runs neither for
  any other number; it always returns and changes nothing else. The number is the byte
  two below the return address stacked by the trap, so the trap raised by
  \<^verbatim>\<open>SVC #imm\<close> is dispatched on \<open>imm\<close>.
\<close>

theorem SVC_Handler_dispatch:
  assumes "6 < length stack_pointer"
  shows "SVC_Handler stack_pointer mem s =
           Returns () (logged (if mem (stack_pointer ! 6 - 2) = 255 then [Preemption_handler_run]
                               else if mem (stack_pointer ! 6 - 2) = 254 then [Interrupt_handler_run]
                               else []) s)
         \<and> svc ra imm s =
           Returns () (logged (Trap imm # (if imm = 255 then [Preemption_handler_run]
                                            else if imm = 254 then [Interrupt_handler_run]
                                            else [])) s)"
  using assms by (simp add: svc_log) (simp add: SVC_Handler_def logged_def kernel_defs Let_def)

theorem SVC_Handler_dispatch_witness:
  "SVC_Handler [0, 0, 0, 0, 0, 0, 258, 0] (\<lambda>a. if a = 256 then 254 else 0) (initial_state 0 0) =
     Returns () (logged [Interrupt_handler_run] (initial_state 0 0))
   \<and> svc 258 255 (initial_state 0 0) =
     Returns () (logged [Trap 255, Preemption_handler_run] (initial_state 0 0))"
  using SVC_Handler_dispatch [of "[0, 0, 0, 0, 0, 0, 258, 0]" "\<lambda>a. if a = 256 then 254 else 0"
      "initial_state 0 0" 258 255]
  by simp

text \<open>
  C10. \<open>tm_cause_interrupt\<close> raises a trap only when \<open>trap_flag\<close> is 255 or 254, the
  trap of that number, which runs the handler bound to it; for every other value of
  \<open>trap_flag\<close> it returns with the state unchanged: no trap, no handler.
\<close>

theorem tm_cause_interrupt_reserved_only:
  "tm_cause_interrupt ra s =
     Returns () (logged (if trap_flag s = 255 then [Trap 255, Preemption_handler_run]
                         else if trap_flag s = 254 then [Trap 254, Interrupt_handler_run]
                         else []) s)"
  by (simp add: tm_cause_interrupt_def svc_log logged_Nil)

subsection \<open>Threads\<close>

lemma handles_allocatedD:
  assumes "handles_allocated s" "j < TM_TEST_NUM_THREADS" "test_thread s j = Some a"
  shows "\<exists>n. a = Obj n \<and> n < k_next (kern s)"
proof -
  from assms(1,2) have "case test_thread s j of None \<Rightarrow> True
      | Some (Obj n) \<Rightarrow> n < k_next (kern s) | Some _ \<Rightarrow> False"
    by (simp add: handles_allocated_def list_all_iff)
  with assms(3) show ?thesis by (cases a) simp_all
qed

lemma create_effect:
  assumes "tm_thread_create thread_id priority e s = Returns TM_SUCCESS s1"
  shows "0 \<le> thread_id \<and> thread_id < 10 \<and>
         test_thread s1 = (test_thread s)(nat thread_id \<mapsto> Obj (k_next (kern s))) \<and>
         stat_of s1 (Obj (k_next (kern s))) = Some Suspended \<and>
         k_next (kern s1) = Suc (k_next (kern s)) \<and>
         k_log (kern s1) = k_log (kern s) @
           [Thread_initialised (Obj (k_next (kern s))), Thread_started (Obj (k_next (kern s))),
            Thread_suspended (Obj (k_next (kern s)))]"
  using assms
  by (auto simp: tm_thread_create_def table_defs kernel_defs stat_of_def Let_def
        split: option.splits if_splits prod.splits)

lemma create_static_effect:
  assumes "tm_thread_create_static thread_id priority e s = Returns TM_SUCCESS s1"
  shows "stat_of s1 (Thread_slot (nat thread_id)) = Some Suspended \<and>
         k_log (kern s1) = k_log (kern s) @
           [Thread_initialised (Thread_slot (nat thread_id)),
            Thread_started (Thread_slot (nat thread_id)),
            Thread_suspended (Thread_slot (nat thread_id))]"
  using assms
  by (auto simp: tm_thread_create_static_def table_defs kernel_defs stat_of_def Let_def
        split: option.splits if_splits prod.splits)

lemma create_parks:
  assumes "tm_thread_create thread_id priority e s = Returns TM_SUCCESS s1"
    and "handles_allocated s"
  shows "parked (k_next (kern s)) (nat thread_id) s1"
proof -
  note eff = create_effect [OF assms(1)]
  have "test_thread s1 j \<noteq> Some (Obj (k_next (kern s)))"
    if "j < TM_TEST_NUM_THREADS" "j \<noteq> nat thread_id" for j
  proof
    assume "test_thread s1 j = Some (Obj (k_next (kern s)))"
    with eff that(2) have "test_thread s j = Some (Obj (k_next (kern s)))" by simp
    from handles_allocatedD [OF assms(2) that(1) this] show False by simp
  qed
  with eff show ?thesis by (simp add: parked_def)
qed

text \<open>What the kernel's thread calls leave alone.\<close>

lemma parked_kernel_only:
  assumes "parked n i s"
    and "k_next (kern s) \<le> k_next k'"
    and "map_option t_stat (k_threads k' (Obj n)) = Some Suspended \<or>
         map_option t_stat (k_threads k' (Obj n)) = Some Closed"
  shows "parked n i (s\<lparr>kern := k'\<rparr>)"
  using assms by (auto simp: parked_def stat_of_def)

lemma parked_stat:
  "parked n i s \<Longrightarrow>
     map_option t_stat (k_threads (kern s) (Obj n)) = Some Suspended \<or>
     map_option t_stat (k_threads (kern s) (Obj n)) = Some Closed"
  by (simp add: parked_def stat_of_def)

lemma suspend_keeps:
  assumes "map_option t_stat (k_threads k a) = Some Suspended \<or>
           map_option t_stat (k_threads k a) = Some Closed"
  shows "map_option t_stat (k_threads (snd (rt_thread_suspend t k)) a) =
           map_option t_stat (k_threads k a) \<and>
         k_next (snd (rt_thread_suspend t k)) = k_next k"
  using assms by (cases t) (auto simp: kernel_defs split: option.splits)

lemma delete_keeps:
  assumes "map_option t_stat (k_threads k a) = Some Suspended \<or>
           map_option t_stat (k_threads k a) = Some Closed"
  shows "(map_option t_stat (k_threads (snd (rt_thread_delete t k)) a) = Some Suspended \<or>
          map_option t_stat (k_threads (snd (rt_thread_delete t k)) a) = Some Closed) \<and>
         k_next (snd (rt_thread_delete t k)) = k_next k"
  using assms by (cases t) (auto simp: kernel_defs split: option.splits)

lemma resume_other:
  assumes "t \<noteq> Some a"
  shows "k_threads (snd (rt_thread_resume t k)) a = k_threads k a \<and>
         k_next (snd (rt_thread_resume t k)) = k_next k"
  using assms by (cases t) (auto simp: kernel_defs split: option.splits)

text \<open>Each call of the interface but \<open>tm_thread_resume\<close> on the slot keeps a thread parked.\<close>

lemma parked_resume:
  assumes "parked n (nat thread_id) s" "0 \<le> thread_id" "j \<noteq> thread_id"
    and "tm_thread_resume j s = Returns r s'"
  shows "parked n (nat thread_id) s'"
proof -
  from assms(4) obtain i where i: "table_index TM_TEST_NUM_THREADS j = Some i"
    and s': "s' = s\<lparr>kern := snd (rt_thread_resume (test_thread s i) (kern s))\<rparr>"
    by (auto simp: tm_thread_resume_def Let_def split_def split: option.splits)
  from i assms(2,3) have "i < TM_TEST_NUM_THREADS" "i \<noteq> nat thread_id"
    by (auto simp: table_index_def split: if_splits)
  with assms(1) have "test_thread s i \<noteq> Some (Obj n)" by (simp add: parked_def)
  from resume_other [OF this] parked_stat [OF assms(1)] show ?thesis
    unfolding s' by (intro parked_kernel_only [OF assms(1)]) simp_all
qed

lemma parked_suspend:
  assumes "parked n i s" "tm_thread_suspend j s = Returns r s'"
  shows "parked n i s'"
proof -
  from assms(2) obtain i' where
    s': "s' = s\<lparr>kern := rt_schedule (snd (rt_thread_suspend (test_thread s i') (kern s)))\<rparr>"
    by (auto simp: tm_thread_suspend_def Let_def split_def split: option.splits)
  from suspend_keeps [OF parked_stat [OF assms(1)]] parked_stat [OF assms(1)] show ?thesis
    unfolding s'
    by (intro parked_kernel_only [OF assms(1)]) (simp_all add: rt_schedule_def log_event_def)
qed

lemma parked_create:
  assumes "parked n i s" "tm_thread_create j p e s = Returns r s'"
  shows "parked n i s'"
  using assms
  by (auto simp: tm_thread_create_def table_defs kernel_defs stat_of_def parked_def Let_def
        split: option.splits if_splits prod.splits)

lemma parked_detach_loop:
  "parked n i s \<Longrightarrow> tm_thread_detach_loop j s = Returns r s' \<Longrightarrow> parked n i s'"
proof (induction j s rule: tm_thread_detach_loop.induct)
  case (1 j s)
  show ?case
  proof (cases "j < TM_TEST_NUM_THREADS")
    case False
    with "1.prems" show ?thesis by (simp add: tm_thread_detach_loop.simps)
  next
    case True
    from True "1.prems"(2) obtain a th where obj: "test_thread s j = Some a"
      "k_threads (kern s) a = Some th"
      by (subst (asm) tm_thread_detach_loop.simps) (auto split: option.splits)
    show ?thesis
    proof (cases "stack_addr th \<noteq> None")
      case stk: True
      let ?s = "s\<lparr>kern := snd (rt_thread_delete (test_thread s j) (kern s))\<rparr>"
      from delete_keeps [OF parked_stat [OF "1.prems"(1)]]
      have p: "parked n i ?s" by (intro parked_kernel_only [OF "1.prems"(1)]) simp_all
      from True obj stk "1.prems"(2) have "tm_thread_detach_loop (Suc j) ?s = Returns r s'"
        by (subst (asm) tm_thread_detach_loop.simps) simp
      from "1.IH"(1) [OF True obj stk p this] show ?thesis .
    next
      case stk: False
      from True obj stk "1.prems"(2) have "tm_thread_detach_loop (Suc j) s = Returns r s'"
        by (subst (asm) tm_thread_detach_loop.simps) simp
      from "1.IH"(2) [OF True obj stk "1.prems"(1) this] show ?thesis .
    qed
  qed
qed

lemma detach_loop_never_blocks: "tm_thread_detach_loop j s \<noteq> Blocks s'"
proof (induction j s rule: tm_thread_detach_loop.induct)
  case (1 j s)
  show ?case
    using "1.IH"
    by (subst tm_thread_detach_loop.simps) (auto split: option.splits)
qed

lemma parked_other_calls:
  assumes "parked n i s"
  shows "tm_thread_relinquish s = Returns u s' \<Longrightarrow> parked n i s'"
    and "tm_thread_sleep secs s = Returns u s' \<Longrightarrow> parked n i s'"
    and "tm_queue_create q s = Returns r s' \<Longrightarrow> parked n i s'"
    and "tm_queue_send q m s = Returns r s' \<Longrightarrow> parked n i s'"
    and "tm_queue_receive q s = Returns rm s' \<Longrightarrow> parked n i s'"
    and "tm_semaphore_create q s = Returns r s' \<Longrightarrow> parked n i s'"
    and "tm_semaphore_get q s = Returns r s' \<Longrightarrow> parked n i s'"
    and "tm_semaphore_put q s = Returns r s' \<Longrightarrow> parked n i s'"
    and "tm_cause_interrupt ra s = Returns u s' \<Longrightarrow> parked n i s'"
    and "tm_memory_pool_create q s = Returns r s' \<Longrightarrow> parked n i s'"
    and "tm_memory_pool_allocate q s = Returns rp s' \<Longrightarrow> parked n i s'"
    and "tm_memory_pool_deallocate q p s = Returns r s' \<Longrightarrow> parked n i s'"
  using assms
  by (auto simp: tm_thread_relinquish_def tm_thread_sleep_def tm_queue_create_def
        tm_queue_send_def tm_queue_receive_def tm_semaphore_create_def tm_semaphore_get_def
        tm_semaphore_put_def tm_cause_interrupt_def svc_log logged_def
        tm_memory_pool_create_def tm_memory_pool_allocate_def tm_memory_pool_deallocate_def
        kernel_defs stat_of_def parked_def Let_def
        split: option.splits if_splits prod.splits list.splits wait.splits)

text \<open>The work of a handler: it never blocks, and it keeps parked a thread it does not resume.\<close>

lemma resume_never_blocks: "tm_thread_resume i s \<noteq> Blocks s'"
  by (simp add: tm_thread_resume_def Let_def split_def split: option.splits)

lemma resume_each_never_blocks: "resume_each ids s \<noteq> Blocks s'"
proof (induction ids arbitrary: s)
  case Nil
  show ?case by simp
next
  case (Cons i ids)
  then show ?case
    by (cases "tm_thread_resume i s") (simp_all add: and_then_def resume_never_blocks)
qed

lemma parked_resume_each:
  assumes "0 \<le> thread_id" "thread_id \<notin> set ids"
  shows "parked n (nat thread_id) s \<Longrightarrow> resume_each ids s = Returns u s' \<Longrightarrow>
         parked n (nat thread_id) s'"
  using assms(2)
proof (induction ids arbitrary: s)
  case Nil
  then show ?case by simp
next
  case (Cons i ids)
  from Cons.prems(3) have i: "i \<noteq> thread_id" and ids: "thread_id \<notin> set ids" by auto
  from Cons.prems(2) obtain r s1 where r: "tm_thread_resume i s = Returns r s1"
    and rest: "resume_each ids s1 = Returns u s'"
    by (auto simp: and_then_def split: result.splits)
  from Cons.IH [OF parked_resume [OF Cons.prems(1) assms(1) i r] rest ids] show ?case .
qed

lemma handler_work_subset:
  "set (handler_work H s) \<subseteq> set (interrupt_resumes H) \<union> set (preemption_resumes H)"
  by (auto simp: handler_work_def)

lemma blocks_unchanged:
  "exec H c s = Blocks s' \<Longrightarrow> s' = s"
  by (cases c)
    (auto simp: and_then_def tm_thread_create_def tm_thread_resume_def tm_thread_suspend_def
       tm_thread_relinquish_def tm_thread_sleep_def tm_thread_detach_def
       detach_loop_never_blocks resume_each_never_blocks tm_queue_create_def
       tm_queue_send_def tm_queue_receive_def tm_semaphore_create_def tm_semaphore_get_def
       tm_semaphore_put_def tm_cause_interrupt_def svc_log
       tm_memory_pool_create_def tm_memory_pool_allocate_def tm_memory_pool_deallocate_def
       Let_def split_def
       split: option.splits if_splits result.splits)

lemma parked_exec:
  assumes "parked n (nat thread_id) s" "0 \<le> thread_id" "c \<noteq> Thread_resume thread_id"
    and "thread_id \<notin> set (interrupt_resumes H)" "thread_id \<notin> set (preemption_resumes H)"
    and "exec H c s = Returns r s'"
  shows "parked n (nat thread_id) s'"
proof (cases c)
  case (Thread_resume j)
  with assms(3,6) show ?thesis
    by (auto simp: and_then_def split: result.splits
          intro: parked_resume [OF assms(1,2)])
next
  case Thread_detach
  with assms(6) show ?thesis
    by (auto simp: and_then_def tm_thread_detach_def split: result.splits
          intro: parked_detach_loop [OF assms(1)])
next
  case (Cause_interrupt ra)
  with assms(6) obtain u s1 where trap: "tm_cause_interrupt ra s = Returns u s1"
    and work: "resume_each (handler_work H s) s1 = Returns () s'"
    by (auto simp: and_then_def split: result.splits)
  from handler_work_subset [of H s] assms(4,5)
  have "thread_id \<notin> set (handler_work H s)" by blast
  from parked_resume_each [OF assms(2) this parked_other_calls(9) [OF assms(1) trap] work]
  show ?thesis .
qed (use assms(6) in \<open>auto simp: and_then_def split: result.splits
      intro: parked_create [OF assms(1)] parked_suspend [OF assms(1)]
        parked_other_calls [OF assms(1)]\<close>)

lemma parked_run:
  assumes "0 \<le> thread_id" "Thread_resume thread_id \<notin> set cs"
    and "thread_id \<notin> set (interrupt_resumes H)" "thread_id \<notin> set (preemption_resumes H)"
  shows "parked n (nat thread_id) s \<Longrightarrow>
         run H cs s = Returns rs s' \<or> run H cs s = Blocks s' \<Longrightarrow>
         parked n (nat thread_id) s'"
  using assms(2)
proof (induction cs arbitrary: s rs)
  case Nil
  then show ?case by simp
next
  case (Cons c cs)
  from Cons.prems(3) have c: "c \<noteq> Thread_resume thread_id"
    and cs: "Thread_resume thread_id \<notin> set cs" by auto
  show ?case
  proof (cases "exec H c s")
    case (Returns r s1)
    from parked_exec [OF Cons.prems(1) assms(1) c assms(3,4) Returns]
    have p1: "parked n (nat thread_id) s1" .
    from Cons.prems(2) Returns
    have "(\<exists>rs'. run H cs s1 = Returns rs' s') \<or> run H cs s1 = Blocks s'"
      by (auto simp: and_then_def split: result.splits)
    with Cons.IH [OF p1 _ cs] show ?thesis by blast
  next
    case (Blocks s1)
    with Cons.prems(2) have "s' = s1" by (simp add: and_then_def)
    with blocks_unchanged [OF Blocks] Cons.prems(1) show ?thesis by simp
  next
    case (Fault e)
    with Cons.prems(2) show ?thesis by (simp add: and_then_def)
  qed
qed

text \<open>
  The handles of the thread table are objects the kernel allocated, at program start
  and after every sequence of calls.
\<close>

lemma handles_allocated_initial: "handles_allocated (initial_state heap flag)"
  by (simp add: handles_allocated_def table_defs list_all_iff)

lemma handles_allocatedI:
  assumes "\<And>j a. j < TM_TEST_NUM_THREADS \<Longrightarrow> test_thread s j = Some a \<Longrightarrow>
             \<exists>n. a = Obj n \<and> n < k_next (kern s)"
  shows "handles_allocated s"
  unfolding handles_allocated_def list_all_iff
proof
  fix j assume "j \<in> set [0..<TM_TEST_NUM_THREADS]"
  then have j: "j < TM_TEST_NUM_THREADS" by simp
  show "case test_thread s j of None \<Rightarrow> True
      | Some (Obj n) \<Rightarrow> n < k_next (kern s) | Some _ \<Rightarrow> False"
  proof (cases "test_thread s j")
    case None
    then show ?thesis by simp
  next
    case (Some a)
    from assms [OF j Some] Some show ?thesis by auto
  qed
qed

lemma handles_allocated_mono:
  assumes "handles_allocated s" "test_thread s' = test_thread s"
    "k_next (kern s) \<le> k_next (kern s')"
  shows "handles_allocated s'"
proof (rule handles_allocatedI)
  fix j a assume "j < TM_TEST_NUM_THREADS" "test_thread s' j = Some a"
  with assms(2) handles_allocatedD [OF assms(1), of j a]
  obtain n where "a = Obj n" "n < k_next (kern s)" by auto
  with assms(3) show "\<exists>n. a = Obj n \<and> n < k_next (kern s')" by auto
qed

lemma create_tables:
  assumes "tm_thread_create j p e s = Returns r s'"
  shows "k_next (kern s) \<le> k_next (kern s') \<and>
         (\<forall>i. test_thread s' i = test_thread s i \<or> test_thread s' i = None \<or>
              (test_thread s' i = Some (Obj (k_next (kern s))) \<and>
               k_next (kern s') = Suc (k_next (kern s))))"
  using assms
  by (auto simp: tm_thread_create_def table_defs kernel_defs Let_def
        split: option.splits if_splits prod.splits)

lemma handles_allocated_create:
  assumes "handles_allocated s" "tm_thread_create j p e s = Returns r s'"
  shows "handles_allocated s'"
proof (rule handles_allocatedI)
  fix i a assume i: "i < TM_TEST_NUM_THREADS" and a: "test_thread s' i = Some a"
  note ct = create_tables [OF assms(2)]
  from ct a consider "test_thread s i = Some a"
    | "a = Obj (k_next (kern s))" "k_next (kern s') = Suc (k_next (kern s))"
    by (metis option.distinct(1) option.inject)
  then show "\<exists>n. a = Obj n \<and> n < k_next (kern s')"
  proof cases
    case 1
    from handles_allocatedD [OF assms(1) i 1] ct show ?thesis by auto
  next
    case 2
    then show ?thesis by simp
  qed
qed


lemma thread_calls_next:
  "k_next (snd (rt_thread_startup t k)) = k_next k"
  "k_next (snd (rt_thread_suspend t k)) = k_next k"
  "k_next (snd (rt_thread_resume t k)) = k_next k"
  "k_next (snd (rt_thread_delete t k)) = k_next k"
  by (auto simp: kernel_defs split: option.splits)

lemma detach_loop_tables:
  "tm_thread_detach_loop j s = Returns r s' \<Longrightarrow>
     test_thread s' = test_thread s \<and> k_next (kern s') = k_next (kern s)"
proof (induction j s rule: tm_thread_detach_loop.induct)
  case (1 j s)
  show ?case
  proof (cases "j < TM_TEST_NUM_THREADS")
    case False
    with "1.prems" show ?thesis by (simp add: tm_thread_detach_loop.simps)
  next
    case True
    from True "1.prems" obtain a th where obj: "test_thread s j = Some a"
      "k_threads (kern s) a = Some th"
      by (subst (asm) tm_thread_detach_loop.simps) (auto split: option.splits)
    show ?thesis
    proof (cases "stack_addr th \<noteq> None")
      case stk: True
      let ?s = "s\<lparr>kern := snd (rt_thread_delete (test_thread s j) (kern s))\<rparr>"
      from True obj stk "1.prems" have "tm_thread_detach_loop (Suc j) ?s = Returns r s'"
        by (subst (asm) tm_thread_detach_loop.simps) simp
      from "1.IH"(1) [OF True obj stk this] show ?thesis by (simp add: thread_calls_next)
    next
      case stk: False
      from True obj stk "1.prems" have "tm_thread_detach_loop (Suc j) s = Returns r s'"
        by (subst (asm) tm_thread_detach_loop.simps) simp
      from "1.IH"(2) [OF True obj stk this] show ?thesis .
    qed
  qed
qed

lemma other_calls_tables:
  "tm_thread_resume q s = Returns r s' \<Longrightarrow>
     test_thread s' = test_thread s \<and> k_next (kern s) \<le> k_next (kern s')"
  "tm_thread_suspend q s = Returns r s' \<Longrightarrow>
     test_thread s' = test_thread s \<and> k_next (kern s) \<le> k_next (kern s')"
  "tm_thread_relinquish s = Returns u s' \<Longrightarrow>
     test_thread s' = test_thread s \<and> k_next (kern s) \<le> k_next (kern s')"
  "tm_thread_sleep secs s = Returns u s' \<Longrightarrow>
     test_thread s' = test_thread s \<and> k_next (kern s) \<le> k_next (kern s')"
  "tm_thread_detach s = Returns u s' \<Longrightarrow>
     test_thread s' = test_thread s \<and> k_next (kern s) \<le> k_next (kern s')"
  "tm_queue_create q s = Returns r s' \<Longrightarrow>
     test_thread s' = test_thread s \<and> k_next (kern s) \<le> k_next (kern s')"
  "tm_queue_send q m s = Returns r s' \<Longrightarrow>
     test_thread s' = test_thread s \<and> k_next (kern s) \<le> k_next (kern s')"
  "tm_queue_receive q s = Returns rm s' \<Longrightarrow>
     test_thread s' = test_thread s \<and> k_next (kern s) \<le> k_next (kern s')"
  "tm_semaphore_create q s = Returns r s' \<Longrightarrow>
     test_thread s' = test_thread s \<and> k_next (kern s) \<le> k_next (kern s')"
  "tm_semaphore_get q s = Returns r s' \<Longrightarrow>
     test_thread s' = test_thread s \<and> k_next (kern s) \<le> k_next (kern s')"
  "tm_semaphore_put q s = Returns r s' \<Longrightarrow>
     test_thread s' = test_thread s \<and> k_next (kern s) \<le> k_next (kern s')"
  "tm_cause_interrupt ra s = Returns u s' \<Longrightarrow>
     test_thread s' = test_thread s \<and> k_next (kern s) \<le> k_next (kern s')"
  "tm_memory_pool_create q s = Returns r s' \<Longrightarrow>
     test_thread s' = test_thread s \<and> k_next (kern s) \<le> k_next (kern s')"
  "tm_memory_pool_allocate q s = Returns rp s' \<Longrightarrow>
     test_thread s' = test_thread s \<and> k_next (kern s) \<le> k_next (kern s')"
  "tm_memory_pool_deallocate q p s = Returns r s' \<Longrightarrow>
     test_thread s' = test_thread s \<and> k_next (kern s) \<le> k_next (kern s')"
  by (auto simp: tm_thread_resume_def tm_thread_suspend_def
       tm_thread_relinquish_def tm_thread_sleep_def tm_thread_detach_def tm_queue_create_def
       tm_queue_send_def tm_queue_receive_def tm_semaphore_create_def tm_semaphore_get_def
       tm_semaphore_put_def tm_cause_interrupt_def svc_log logged_def
       tm_memory_pool_create_def tm_memory_pool_allocate_def tm_memory_pool_deallocate_def
       thread_calls_next rt_schedule_def rt_thread_yield_def rt_thread_mdelay_def log_event_def
       rt_sem_create_def rt_sem_take_def rt_sem_release_def rt_mq_init_def rt_mq_send_def
       rt_mq_recv_def rt_mp_init_def rt_mp_alloc_def rt_mp_free_def
       Let_def split_def
       dest: detach_loop_tables
       split: option.splits if_splits list.splits wait.splits)

lemma resume_each_tables:
  "resume_each ids s = Returns u s' \<Longrightarrow>
     test_thread s' = test_thread s \<and> k_next (kern s) \<le> k_next (kern s')"
proof (induction ids arbitrary: s)
  case Nil
  then show ?case by simp
next
  case (Cons i ids)
  from Cons.prems obtain r s1 where r: "tm_thread_resume i s = Returns r s1"
    and rest: "resume_each ids s1 = Returns u s'"
    by (auto simp: and_then_def split: result.splits)
  from other_calls_tables(1) [OF r] Cons.IH [OF rest] show ?case by simp
qed

lemma handles_allocated_exec:
  assumes "handles_allocated s" "exec H c s = Returns r s'"
  shows "handles_allocated s'"
proof (cases c)
  case (Thread_create j p e)
  with assms(2) show ?thesis
    by (auto simp: and_then_def split: result.splits intro: handles_allocated_create [OF assms(1)])
next
  case (Cause_interrupt ra)
  with assms(2) obtain u s1 where trap: "tm_cause_interrupt ra s = Returns u s1"
    and work: "resume_each (handler_work H s) s1 = Returns () s'"
    by (auto simp: and_then_def split: result.splits)
  from other_calls_tables(12) [OF trap] resume_each_tables [OF work]
  show ?thesis by (intro handles_allocated_mono [OF assms(1)]) simp_all
qed (use assms(2) in \<open>auto simp: and_then_def split: result.splits
      dest!: other_calls_tables intro: handles_allocated_mono [OF assms(1)]\<close>)

lemma handles_allocated_run:
  "handles_allocated s \<Longrightarrow> run H cs s = Returns rs s' \<Longrightarrow> handles_allocated s'"
proof (induction cs arbitrary: s rs)
  case Nil
  then show ?case by simp
next
  case (Cons c cs)
  from Cons.prems(2) obtain r s1 rs' where e: "exec H c s = Returns r s1"
    and r: "run H cs s1 = Returns rs' s'"
    by (auto simp: and_then_def split: result.splits)
  from Cons.IH [OF handles_allocated_exec [OF Cons.prems(1) e] r] show ?case .
qed

text \<open>
  The same for \<^verbatim>\<open>src/src/tm_porting_layer_rtthread.c\<close>, where thread \<open>thread_id\<close> is the
  control block in slot \<open>thread_id\<close> of the table.
\<close>

lemma static_calls_keep:
  assumes "stat_of s (Thread_slot i) = Some Suspended"
  shows "tm_thread_create_static j p e s = Returns r s' \<Longrightarrow>
           stat_of s' (Thread_slot i) = Some Suspended"
    and "tm_thread_suspend_static j s = Returns r s' \<Longrightarrow>
           stat_of s' (Thread_slot i) = Some Suspended"
    and "tm_thread_relinquish s = Returns u s' \<Longrightarrow> stat_of s' (Thread_slot i) = Some Suspended"
    and "tm_thread_sleep secs s = Returns u s' \<Longrightarrow> stat_of s' (Thread_slot i) = Some Suspended"
    and "tm_semaphore_create_static j s = Returns r s' \<Longrightarrow>
           stat_of s' (Thread_slot i) = Some Suspended"
    and "tm_cause_interrupt_static s = Returns u s' \<Longrightarrow>
           stat_of s' (Thread_slot i) = Some Suspended"
  using assms
  by (auto simp: tm_thread_create_static_def tm_thread_suspend_static_def
        tm_thread_relinquish_def tm_thread_sleep_def tm_semaphore_create_static_def
        tm_cause_interrupt_static_def kernel_defs stat_of_def table_defs Let_def
        split: option.splits if_splits prod.splits)

lemma static_resume_keeps:
  assumes "stat_of s (Thread_slot (nat thread_id)) = Some Suspended" "0 \<le> thread_id"
    "j \<noteq> thread_id" "tm_thread_resume_static j s = Returns r s'"
  shows "stat_of s' (Thread_slot (nat thread_id)) = Some Suspended"
proof -
  from assms(4) obtain i where i: "table_index TM_TEST_NUM_THREADS j = Some i"
    and s': "s' = s\<lparr>kern := snd (rt_thread_resume (Some (Thread_slot i)) (kern s))\<rparr>"
    by (auto simp: tm_thread_resume_static_def Let_def split_def split: option.splits)
  from i assms(2,3) have "Some (Thread_slot i) \<noteq> Some (Thread_slot (nat thread_id))"
    by (auto simp: table_index_def split: if_splits)
  from resume_other [OF this] assms(1) show ?thesis
    unfolding s' by (simp add: stat_of_def)
qed

lemma static_resume_each_keeps:
  assumes "0 \<le> thread_id" "thread_id \<notin> set ids"
  shows "stat_of s (Thread_slot (nat thread_id)) = Some Suspended \<Longrightarrow>
         resume_each_static ids s = Returns u s' \<Longrightarrow>
         stat_of s' (Thread_slot (nat thread_id)) = Some Suspended"
  using assms(2)
proof (induction ids arbitrary: s)
  case Nil
  then show ?case by simp
next
  case (Cons i ids)
  from Cons.prems(3) have i: "i \<noteq> thread_id" and ids: "thread_id \<notin> set ids" by auto
  from Cons.prems(2) obtain r s1 where r: "tm_thread_resume_static i s = Returns r s1"
    and rest: "resume_each_static ids s1 = Returns u s'"
    by (auto simp: and_then_def split: result.splits)
  from Cons.IH [OF static_resume_keeps [OF Cons.prems(1) assms(1) i r] rest ids] show ?case .
qed

lemma static_resume_each_never_blocks: "resume_each_static ids s \<noteq> Blocks s'"
proof (induction ids arbitrary: s)
  case Nil
  show ?case by simp
next
  case (Cons i ids)
  then show ?case
    by (cases "tm_thread_resume_static i s")
      (auto simp: and_then_def tm_thread_resume_static_def Let_def split_def
         split: option.splits)
qed

lemma static_blocks_unchanged:
  "exec_static H c s = Blocks s' \<Longrightarrow> s' = s"
  by (cases c)
    (auto simp: and_then_def tm_thread_create_static_def tm_thread_resume_static_def
       tm_thread_suspend_static_def tm_thread_relinquish_def tm_thread_sleep_def
       tm_semaphore_create_static_def tm_cause_interrupt_static_def
       static_resume_each_never_blocks Let_def split_def
       split: option.splits if_splits result.splits)

lemma static_exec_keeps:
  assumes "stat_of s (Thread_slot (nat thread_id)) = Some Suspended" "0 \<le> thread_id"
    and "c \<noteq> Static_thread_resume thread_id" "thread_id \<notin> set (interrupt_resumes H)"
    and "exec_static H c s = Returns r s'"
  shows "stat_of s' (Thread_slot (nat thread_id)) = Some Suspended"
proof (cases c)
  case (Static_thread_resume j)
  with assms(3,5) show ?thesis
    by (auto simp: and_then_def split: result.splits
          intro: static_resume_keeps [OF assms(1,2)])
next
  case Static_cause_interrupt
  with assms(5) obtain u s1 where trap: "tm_cause_interrupt_static s = Returns u s1"
    and work: "resume_each_static (interrupt_resumes H) s1 = Returns () s'"
    by (auto simp: and_then_def split: result.splits)
  from static_resume_each_keeps [OF assms(2,4) static_calls_keep(6) [OF assms(1) trap] work]
  show ?thesis .
qed (use assms(5) in \<open>auto simp: and_then_def split: result.splits
      intro: static_calls_keep [OF assms(1)]\<close>)

lemma static_run_keeps:
  assumes "0 \<le> thread_id" "Static_thread_resume thread_id \<notin> set cs"
    and "thread_id \<notin> set (interrupt_resumes H)"
  shows "stat_of s (Thread_slot (nat thread_id)) = Some Suspended \<Longrightarrow>
         run_static H cs s = Returns rs s' \<or> run_static H cs s = Blocks s' \<Longrightarrow>
         stat_of s' (Thread_slot (nat thread_id)) = Some Suspended"
  using assms(2)
proof (induction cs arbitrary: s rs)
  case Nil
  then show ?case by simp
next
  case (Cons c cs)
  from Cons.prems(3) have c: "c \<noteq> Static_thread_resume thread_id"
    and cs: "Static_thread_resume thread_id \<notin> set cs" by auto
  show ?case
  proof (cases "exec_static H c s")
    case (Returns r s1)
    from static_exec_keeps [OF Cons.prems(1) assms(1) c assms(3) Returns]
    have p1: "stat_of s1 (Thread_slot (nat thread_id)) = Some Suspended" .
    from Cons.prems(2) Returns
    have "(\<exists>rs'. run_static H cs s1 = Returns rs' s') \<or> run_static H cs s1 = Blocks s'"
      by (auto simp: and_then_def split: result.splits)
    with Cons.IH [OF p1 _ cs] show ?thesis by blast
  next
    case (Blocks s1)
    with Cons.prems(2) have "s' = s1" by (simp add: and_then_def)
    with static_blocks_unchanged [OF Blocks] Cons.prems(1) show ?thesis by simp
  next
    case (Fault e)
    with Cons.prems(2) show ?thesis by (simp add: and_then_def)
  qed
qed

lemma create_static_range:
  "tm_thread_create_static thread_id priority e s = Returns r s1 \<Longrightarrow> 0 \<le> thread_id"
  by (auto simp: tm_thread_create_static_def table_index_def split: if_splits)

text \<open>
  C1. When \<open>tm_thread_create\<close> returns success, in either file, the kernel has been
  asked to start the new thread and then to suspend it, in that order, and the thread
  is suspended when the call returns. From then on the thread is never ready after a
  call of the interface returns or blocks, through every sequence of calls in which
  \<open>tm_thread_resume\<close> is not called on that id, neither in the sequence nor by a handler
  of the benchmark that a trap of the sequence runs. For \<^verbatim>\<open>src/unnamed/part_000\<close> the
  sequences are those of its whole interface; for
  \<^verbatim>\<open>src/src/tm_porting_layer_rtthread.c\<close> they are those of the calls that C defines
  for that file (\<open>static_call\<close>). The kernel's thread states are the model's: a thread
  the kernel starts becomes ready, and nothing runs between the two requests.
\<close>

theorem tm_thread_create_suspended:
  "(tm_thread_create thread_id priority e s = Returns TM_SUCCESS s1 \<longrightarrow>
      (\<exists>h. test_thread s1 (nat thread_id) = Some h \<and>
           k_log (kern s1) =
             k_log (kern s) @ [Thread_initialised h, Thread_started h, Thread_suspended h] \<and>
           stat_of s1 h = Some Suspended \<and>
           (handles_allocated s \<longrightarrow>
              (\<forall>H cs rs s2.
                 Thread_resume thread_id \<notin> set cs \<longrightarrow>
                 thread_id \<notin> set (interrupt_resumes H) \<longrightarrow>
                 thread_id \<notin> set (preemption_resumes H) \<longrightarrow>
                 run H cs s1 = Returns rs s2 \<or> run H cs s1 = Blocks s2 \<longrightarrow>
                 stat_of s2 h \<noteq> Some Ready))))
   \<and> (tm_thread_create_static thread_id priority e s = Returns TM_SUCCESS s1 \<longrightarrow>
        k_log (kern s1) =
          k_log (kern s) @ [Thread_initialised (Thread_slot (nat thread_id)),
                            Thread_started (Thread_slot (nat thread_id)),
                            Thread_suspended (Thread_slot (nat thread_id))] \<and>
        stat_of s1 (Thread_slot (nat thread_id)) = Some Suspended \<and>
        (\<forall>H cs rs s2.
           Static_thread_resume thread_id \<notin> set cs \<longrightarrow>
           thread_id \<notin> set (interrupt_resumes H) \<longrightarrow>
           run_static H cs s1 = Returns rs s2 \<or> run_static H cs s1 = Blocks s2 \<longrightarrow>
           stat_of s2 (Thread_slot (nat thread_id)) \<noteq> Some Ready))"
proof (intro conjI impI)
  assume c: "tm_thread_create thread_id priority e s = Returns TM_SUCCESS s1"
  note eff = create_effect [OF c]
  let ?n = "k_next (kern s)"
  have "stat_of s2 (Obj ?n) \<noteq> Some Ready"
    if "handles_allocated s" "Thread_resume thread_id \<notin> set cs"
      "thread_id \<notin> set (interrupt_resumes H)" "thread_id \<notin> set (preemption_resumes H)"
      "run H cs s1 = Returns rs s2 \<or> run H cs s1 = Blocks s2" for H cs rs s2
  proof -
    from eff have "0 \<le> thread_id" by simp
    from parked_run [OF this that(2,3,4) create_parks [OF c that(1)] that(5)]
    show ?thesis by (auto simp: parked_def)
  qed
  with eff show "\<exists>h. test_thread s1 (nat thread_id) = Some h \<and>
           k_log (kern s1) =
             k_log (kern s) @ [Thread_initialised h, Thread_started h, Thread_suspended h] \<and>
           stat_of s1 h = Some Suspended \<and>
           (handles_allocated s \<longrightarrow>
              (\<forall>H cs rs s2.
                 Thread_resume thread_id \<notin> set cs \<longrightarrow>
                 thread_id \<notin> set (interrupt_resumes H) \<longrightarrow>
                 thread_id \<notin> set (preemption_resumes H) \<longrightarrow>
                 run H cs s1 = Returns rs s2 \<or> run H cs s1 = Blocks s2 \<longrightarrow>
                 stat_of s2 h \<noteq> Some Ready))"
    by (intro exI [of _ "Obj ?n"]) simp
next
  assume c: "tm_thread_create_static thread_id priority e s = Returns TM_SUCCESS s1"
  note eff = create_static_effect [OF c]
  from eff
  show "k_log (kern s1) =
          k_log (kern s) @ [Thread_initialised (Thread_slot (nat thread_id)),
                            Thread_started (Thread_slot (nat thread_id)),
                            Thread_suspended (Thread_slot (nat thread_id))]"
    and "stat_of s1 (Thread_slot (nat thread_id)) = Some Suspended" by simp_all
  have "stat_of s2 (Thread_slot (nat thread_id)) \<noteq> Some Ready"
    if "Static_thread_resume thread_id \<notin> set cs" "thread_id \<notin> set (interrupt_resumes H)"
      "run_static H cs s1 = Returns rs s2 \<or> run_static H cs s1 = Blocks s2" for H cs rs s2
  proof -
    from eff have "stat_of s1 (Thread_slot (nat thread_id)) = Some Suspended" by simp
    from static_run_keeps [OF create_static_range [OF c] that(1,2) this that(3)]
    show ?thesis by simp
  qed
  then show "\<forall>H cs rs s2.
           Static_thread_resume thread_id \<notin> set cs \<longrightarrow>
           thread_id \<notin> set (interrupt_resumes H) \<longrightarrow>
           run_static H cs s1 = Returns rs s2 \<or> run_static H cs s1 = Blocks s2 \<longrightarrow>
           stat_of s2 (Thread_slot (nat thread_id)) \<noteq> Some Ready"
    by blast
qed

text \<open>
  At a concrete input: \<open>trap_flag\<close> is 255, the kernel has room for four objects and the
  handlers of the benchmark resume thread 1. Thread 0 is created; then thread 1 is
  created, a trap is raised, whose preemption handler runs and makes thread 1 ready,
  and more calls follow, every one of which succeeds. Thread 1 is ready at the end and
  thread 0 is not. The same in the static file, with its one handler.
\<close>

theorem tm_thread_create_suspended_witness:
  "\<exists>s1 s2 s3 s4.
     tm_thread_create 0 5 0 (initial_state 4 255) = Returns TM_SUCCESS s1 \<and>
     test_thread s1 0 = Some (Obj 0) \<and>
     stat_of s1 (Obj 0) = Some Suspended \<and>
     run \<lparr>interrupt_resumes = [1], preemption_resumes = [1]\<rparr>
       [Thread_create 1 3 0, Cause_interrupt 2, Semaphore_create 0, Semaphore_get 0,
        Queue_create 0, Thread_relinquish] s1 =
       Returns [Status TM_SUCCESS, Done, Status TM_SUCCESS, Status TM_SUCCESS,
                Status TM_SUCCESS, Done] s2 \<and>
     Preemption_handler_run \<in> set (k_log (kern s2)) \<and>
     stat_of s2 (Obj 1) = Some Ready \<and>
     stat_of s2 (Obj 0) \<noteq> Some Ready \<and>
     tm_thread_create_static 0 5 0 (initial_state 4 255) = Returns TM_SUCCESS s3 \<and>
     stat_of s3 (Thread_slot 0) = Some Suspended \<and>
     run_static \<lparr>interrupt_resumes = [1], preemption_resumes = [1]\<rparr>
       [Static_thread_create 1 3 0, Static_cause_interrupt, Static_semaphore_create 0,
        Static_thread_relinquish] s3 =
       Returns [Status TM_SUCCESS, Done, Status TM_SUCCESS, Done] s4 \<and>
     Interrupt_handler_run \<in> set (k_log (kern s4)) \<and>
     stat_of s4 (Thread_slot 1) = Some Ready \<and>
     stat_of s4 (Thread_slot 0) \<noteq> Some Ready"
proof -
  define H where "H = \<lparr>interrupt_resumes = [1 :: int], preemption_resumes = [1 :: int]\<rparr>"
  define cs where "cs = [Thread_create 1 3 0, Cause_interrupt 2, Semaphore_create 0,
      Semaphore_get 0, Queue_create 0, Thread_relinquish]"
  define cs' where "cs' = [Static_thread_create 1 3 0, Static_cause_interrupt,
      Static_semaphore_create 0, Static_thread_relinquish]"
  obtain s1 where s1: "tm_thread_create 0 5 0 (initial_state 4 255) = Returns TM_SUCCESS s1"
    by (simp add: tm_thread_create_def table_defs kernel_defs Let_def)
  obtain s3 where s3: "tm_thread_create_static 0 5 0 (initial_state 4 255) = Returns TM_SUCCESS s3"
    by (simp add: tm_thread_create_static_def table_defs kernel_defs Let_def)
  have h0: "handles_allocated (initial_state 4 255)"
    by (simp add: handles_allocated_def table_defs list_all_iff)
  have k0: "k_next (kern (initial_state 4 255)) = 0" by (simp add: table_defs)
  have H1: "0 \<notin> set (interrupt_resumes H)" "0 \<notin> set (preemption_resumes H)"
    by (simp_all add: H_def)
  note inst = tm_thread_create_suspended [of 0 5 0 "initial_state 4 255"]
  from inst [of s1] s1 obtain h where h: "test_thread s1 (nat 0) = Some h"
      "stat_of s1 h = Some Suspended"
      "\<And>H cs rs s2. Thread_resume 0 \<notin> set cs \<Longrightarrow> 0 \<notin> set (interrupt_resumes H) \<Longrightarrow>
         0 \<notin> set (preemption_resumes H) \<Longrightarrow>
         run H cs s1 = Returns rs s2 \<or> run H cs s1 = Blocks s2 \<Longrightarrow> stat_of s2 h \<noteq> Some Ready"
    using h0 by blast
  from create_effect [OF s1] k0 h(1) have h_eq: "h = Obj 0" by simp
  from s1 obtain s2 where r: "run H cs s1 =
      Returns [Status TM_SUCCESS, Done, Status TM_SUCCESS, Status TM_SUCCESS,
               Status TM_SUCCESS, Done] s2"
    and r1: "stat_of s2 (Obj 1) = Some Ready"
    and r2: "Preemption_handler_run \<in> set (k_log (kern s2))"
    by (auto simp: H_def cs_def tm_thread_create_def tm_thread_resume_def
          tm_cause_interrupt_def svc_log logged_def handler_work_def tm_semaphore_create_def
          tm_semaphore_get_def tm_queue_create_def tm_thread_relinquish_def stat_of_def
          table_defs kernel_defs and_then_def Let_def)
  have "Thread_resume 0 \<notin> set cs" by (simp add: cs_def)
  from h(3) [OF this H1 disjI1 [OF r]] h_eq have e: "stat_of s2 (Obj 0) \<noteq> Some Ready" by simp
  from h(1,2) h_eq have b: "test_thread s1 0 = Some (Obj 0)" "stat_of s1 (Obj 0) = Some Suspended"
    by simp_all
  from inst [of s3] s3
  have G: "stat_of s3 (Thread_slot (nat 0)) = Some Suspended \<and>
      (\<forall>H cs rs s2. Static_thread_resume 0 \<notin> set cs \<longrightarrow>
         0 \<notin> set (interrupt_resumes H) \<longrightarrow>
         run_static H cs s3 = Returns rs s2 \<or> run_static H cs s3 = Blocks s2 \<longrightarrow>
         stat_of s2 (Thread_slot (nat 0)) \<noteq> Some Ready)"
    by blast
  from G have g: "stat_of s3 (Thread_slot 0) = Some Suspended" by simp
  from G have g': "\<And>H cs rs s2. Static_thread_resume 0 \<notin> set cs \<Longrightarrow>
         0 \<notin> set (interrupt_resumes H) \<Longrightarrow>
         run_static H cs s3 = Returns rs s2 \<or> run_static H cs s3 = Blocks s2 \<Longrightarrow>
         stat_of s2 (Thread_slot 0) \<noteq> Some Ready"
    by (simp del: not_Some_eq) blast
  from s3 obtain s4 where q: "run_static H cs' s3 =
      Returns [Status TM_SUCCESS, Done, Status TM_SUCCESS, Done] s4"
    and q1: "stat_of s4 (Thread_slot 1) = Some Ready"
    and q2: "Interrupt_handler_run \<in> set (k_log (kern s4))"
    by (auto simp: H_def cs'_def tm_thread_create_static_def
          tm_thread_resume_static_def tm_cause_interrupt_static_def
          tm_semaphore_create_static_def tm_thread_relinquish_def stat_of_def
          table_defs kernel_defs and_then_def Let_def)
  have "Static_thread_resume 0 \<notin> set cs'" by (simp add: cs'_def)
  from g' [OF this H1(1) disjI1 [OF q]] have e': "stat_of s4 (Thread_slot 0) \<noteq> Some Ready" .
  from s1 b r [unfolded H_def cs_def] r1 r2 e s3 g q [unfolded H_def cs'_def] q1 q2 e'
  show ?thesis by blast
qed




text \<open>
  In \<^verbatim>\<open>src/unnamed/part_000\<close> \<open>tm_thread_suspend\<close> calls the scheduler last, whatever the
  kernel answered to the request to suspend.
\<close>

lemma tm_thread_suspend_schedules:
  assumes "0 \<le> thread_id" "thread_id < 10"
  shows "\<exists>r s' evs. tm_thread_suspend thread_id s = Returns r s' \<and>
           k_log (kern s') = k_log (kern s) @ evs @ [Scheduler_called]"
  using assms
  by (auto simp: tm_thread_suspend_def table_defs kernel_defs Let_def split_def
        split: option.splits)

text \<open>
  C8 fails in \<^verbatim>\<open>src/src/tm_porting_layer_rtthread.c\<close>. Thread 0 is created and resumed,
  then suspended: in that file the record of the kernel ends with the suspension and
  the scheduler is never called; the same three calls of \<^verbatim>\<open>src/unnamed/part_000\<close> end
  with the call of the scheduler.
\<close>

theorem tm_thread_suspend_static_no_schedule:
  "value_of (and_then (and_then (tm_thread_create_static 0 5 0 (initial_state 0 0))
                (\<lambda>_. tm_thread_resume_static 0)) (\<lambda>_. tm_thread_suspend_static 0))
     = Some TM_SUCCESS
   \<and> log_of (and_then (and_then (tm_thread_create_static 0 5 0 (initial_state 0 0))
                (\<lambda>_. tm_thread_resume_static 0)) (\<lambda>_. tm_thread_suspend_static 0))
     = [Thread_initialised (Thread_slot 0), Thread_started (Thread_slot 0),
        Thread_suspended (Thread_slot 0), Thread_resumed (Thread_slot 0),
        Thread_suspended (Thread_slot 0)]
   \<and> log_of (and_then (and_then (tm_thread_create 0 5 0 (initial_state 1 0))
                (\<lambda>_. tm_thread_resume 0)) (\<lambda>_. tm_thread_suspend 0))
     = [Thread_initialised (Obj 0), Thread_started (Obj 0),
        Thread_suspended (Obj 0), Thread_resumed (Obj 0),
        Thread_suspended (Obj 0), Scheduler_called]"
  by (simp add: tm_thread_create_static_def tm_thread_resume_static_def
        tm_thread_suspend_static_def tm_thread_create_def tm_thread_resume_def
        tm_thread_suspend_def table_defs kernel_defs observer_defs Let_def)

text \<open>
  When all ten slots hold threads that were created, \<open>tm_thread_detach\<close> returns and
  every one of them is closed.
\<close>

lemma rt_thread_delete_object:
  assumes "k_threads k a = Some th"
  shows "\<exists>th'. k_threads (snd (rt_thread_delete t k)) a = Some th' \<and>
           stack_addr th' = stack_addr th \<and>
           (t_stat th = Closed \<longrightarrow> t_stat th' = Closed) \<and>
           (t = Some a \<longrightarrow> t_stat th' = Closed)"
  using assms by (cases t) (auto simp: kernel_defs split: option.splits)

lemma detach_loop_closes:
  "created_from i s \<Longrightarrow>
   \<exists>s'. tm_thread_detach_loop i s = Returns () s' \<and> test_thread s' = test_thread s \<and>
     (\<forall>j. i \<le> j \<and> j < TM_TEST_NUM_THREADS \<longrightarrow>
          (\<exists>a. test_thread s j = Some a \<and> stat_of s' a = Some Closed)) \<and>
     (\<forall>a. stat_of s a = Some Closed \<longrightarrow> stat_of s' a = Some Closed)"
proof (induction i s rule: tm_thread_detach_loop.induct)
  case (1 i s)
  show ?case
  proof (cases "i < TM_TEST_NUM_THREADS")
    case False
    then show ?thesis by (auto simp: tm_thread_detach_loop.simps)
  next
    case True
    with "1.prems" obtain a th where obj: "test_thread s i = Some a"
      "k_threads (kern s) a = Some th" "stack_addr th \<noteq> None"
      unfolding created_from_def by blast
    let ?k = "snd (rt_thread_delete (test_thread s i) (kern s))"
    let ?s = "s\<lparr>kern := ?k\<rparr>"
    have keep: "\<exists>th'. k_threads ?k b = Some th' \<and> stack_addr th' = stack_addr tb \<and>
           (t_stat tb = Closed \<longrightarrow> t_stat th' = Closed) \<and>
           (test_thread s i = Some b \<longrightarrow> t_stat th' = Closed)"
      if "k_threads (kern s) b = Some tb" for b tb
      by (rule rt_thread_delete_object [OF that])
    have "created_from (Suc i) ?s"
      unfolding created_from_def
    proof (intro allI impI)
      fix j assume j: "Suc i \<le> j \<and> j < TM_TEST_NUM_THREADS"
      with "1.prems" obtain b tb where b: "test_thread s j = Some b"
        "k_threads (kern s) b = Some tb" "stack_addr tb \<noteq> None"
        unfolding created_from_def by (metis Suc_leD)
      from keep [OF b(2)] b(1,3)
      show "\<exists>a th. test_thread ?s j = Some a \<and> k_threads (kern ?s) a = Some th \<and>
                stack_addr th \<noteq> None" by auto
    qed
    from "1.IH"(1) [OF True obj(1,2) obj(3) this]
    obtain s' where s': "tm_thread_detach_loop (Suc i) ?s = Returns () s'"
      "test_thread s' = test_thread s"
      "\<forall>j. Suc i \<le> j \<and> j < TM_TEST_NUM_THREADS \<longrightarrow>
          (\<exists>a. test_thread s j = Some a \<and> stat_of s' a = Some Closed)"
      "\<forall>a. stat_of ?s a = Some Closed \<longrightarrow> stat_of s' a = Some Closed"
      by auto
    from keep [OF obj(2)] obj(1) have "stat_of ?s a = Some Closed"
      by (auto simp: stat_of_def)
    with s'(4) have here: "stat_of s' a = Some Closed" by blast
    have closed: "stat_of s' b = Some Closed" if "stat_of s b = Some Closed" for b
    proof -
      from that obtain tb where "k_threads (kern s) b = Some tb" "t_stat tb = Closed"
        by (auto simp: stat_of_def)
      from keep [OF this(1)] this(2) have "stat_of ?s b = Some Closed"
        by (auto simp: stat_of_def)
      with s'(4) show ?thesis by blast
    qed
    have "\<exists>a. test_thread s j = Some a \<and> stat_of s' a = Some Closed"
      if "i \<le> j \<and> j < TM_TEST_NUM_THREADS" for j
    proof (cases "j = i")
      case True
      with obj(1) here show ?thesis by simp
    next
      case False
      with that s'(3) show ?thesis by simp
    qed
    moreover from True obj s'(1) have "tm_thread_detach_loop i s = Returns () s'"
      by (subst tm_thread_detach_loop.simps) simp
    ultimately show ?thesis using s'(2) closed by blast
  qed
qed

lemma tm_thread_detach_all_created:
  assumes "created_from 0 s"
  shows "\<exists>s'. tm_thread_detach s = Returns () s' \<and>
           (\<forall>j < TM_TEST_NUM_THREADS. \<exists>a. test_thread s j = Some a \<and> stat_of s' a = Some Closed)"
  using detach_loop_closes [OF assms] by (auto simp: tm_thread_detach_def)

text \<open>A slot of the thread table that holds the null pointer stops \<open>tm_thread_detach\<close>.\<close>

lemma detach_loop_null_slot:
  "i \<le> j \<Longrightarrow> j < TM_TEST_NUM_THREADS \<Longrightarrow> test_thread s j = None \<Longrightarrow>
   \<exists>e. tm_thread_detach_loop i s = Fault e"
proof (induction i s rule: tm_thread_detach_loop.induct)
  case (1 i s)
  show ?case
  proof (cases "i = j")
    case True
    with "1.prems" show ?thesis by (simp add: tm_thread_detach_loop.simps)
  next
    case False
    with "1.prems" have lt: "i < TM_TEST_NUM_THREADS" and le: "Suc i \<le> j" by auto
    show ?thesis
    proof (cases "test_thread s i")
      case None
      with lt show ?thesis by (simp add: tm_thread_detach_loop.simps)
    next
      case (Some a)
      show ?thesis
      proof (cases "k_threads (kern s) a")
        case None
        with Some lt show ?thesis by (simp add: tm_thread_detach_loop.simps)
      next
        case (Some th)
        note obj = \<open>test_thread s i = Some a\<close> Some
        show ?thesis
        proof (cases "stack_addr th \<noteq> None")
          case True
          from "1.IH"(1) [OF lt obj(1) obj(2) True le "1.prems"(2)] "1.prems"(3)
          have "\<exists>e. tm_thread_detach_loop (Suc i)
                  (s\<lparr>kern := snd (rt_thread_delete (test_thread s i) (kern s))\<rparr>) = Fault e"
            by simp
          with lt obj True show ?thesis by (subst tm_thread_detach_loop.simps) auto
        next
          case False
          from "1.IH"(2) [OF lt obj(1) obj(2) False le "1.prems"(2,3)]
          have "\<exists>e. tm_thread_detach_loop (Suc i) s = Fault e" .
          with lt obj False show ?thesis by (subst tm_thread_detach_loop.simps) auto
        qed
      qed
    qed
  qed
qed

lemma tm_thread_detach_null_slot:
  "j < TM_TEST_NUM_THREADS \<Longrightarrow> test_thread s j = None \<Longrightarrow> \<exists>e. tm_thread_detach s = Fault e"
  unfolding tm_thread_detach_def by (rule detach_loop_null_slot) simp_all

text \<open>
  C9 fails. With no thread created, and with thread 0 alone created, \<open>tm_thread_detach\<close>
  does not skip the slots never created: it reads \<^verbatim>\<open>stack_addr\<close> through the null
  pointer of the first of them.
\<close>

theorem tm_thread_detach_faults:
  "tm_thread_detach (initial_state 1 0) = Fault Null_dereference
   \<and> and_then (tm_thread_create 0 5 0 (initial_state 1 0)) (\<lambda>_. tm_thread_detach)
       = Fault Null_dereference"
  by (simp add: tm_thread_detach_def tm_thread_detach_loop.simps tm_thread_create_def
        table_defs kernel_defs observer_defs Let_def)

subsection \<open>Semaphores\<close>

text \<open>
  In \<^verbatim>\<open>src/unnamed/part_000\<close> a semaphore just created is taken once; a second
  \<open>tm_semaphore_get\<close> blocks the caller, and after a \<open>tm_semaphore_put\<close> the semaphore is
  taken again.
\<close>

lemma tm_semaphore_get_once:
  assumes "0 \<le> semaphore_id" "semaphore_id < 4" "k_heap (kern s) \<noteq> 0"
  shows "\<exists>s1 s2 s3 s4.
           tm_semaphore_create semaphore_id s = Returns TM_SUCCESS s1 \<and>
           tm_semaphore_get semaphore_id s1 = Returns TM_SUCCESS s2 \<and>
           tm_semaphore_get semaphore_id s2 = Blocks s2 \<and>
           tm_semaphore_put semaphore_id s2 = Returns TM_SUCCESS s3 \<and>
           tm_semaphore_get semaphore_id s3 = Returns TM_SUCCESS s4"
  using assms
  by (simp add: tm_semaphore_create_def tm_semaphore_get_def tm_semaphore_put_def
        table_defs rt_sem_create_def rt_sem_take_def rt_sem_release_def Let_def)

text \<open>
  In \<^verbatim>\<open>src/src/tm_porting_layer_rtthread.c\<close> \<open>tm_semaphore_get\<close> hands the kernel the
  address of the table's slot. No semaphore lives there, so the call fails and
  changes nothing, whatever the semaphore in the slot counts.
\<close>

lemma tm_semaphore_get_static_fails:
  assumes "0 \<le> semaphore_id" "semaphore_id < 4"
    and "k_sems (kern s) (Sem_slot (nat semaphore_id)) = None"
  shows "tm_semaphore_get_static semaphore_id s = Returns TM_ERROR s"
  using assms
  by (simp add: tm_semaphore_get_static_def table_defs rt_sem_take_def)

text \<open>
  C6 fails in \<^verbatim>\<open>src/src/tm_porting_layer_rtthread.c\<close>: semaphore 0 is created and the
  \<open>tm_semaphore_get\<close> that follows returns the error status. The same two calls of
  \<^verbatim>\<open>src/unnamed/part_000\<close> return success.
\<close>

theorem tm_semaphore_get_static_after_create:
  "value_of (tm_semaphore_create_static 0 (initial_state 1 0)) = Some TM_SUCCESS
   \<and> value_of (and_then (tm_semaphore_create_static 0 (initial_state 1 0))
                 (\<lambda>_. tm_semaphore_get_static 0)) = Some TM_ERROR
   \<and> value_of (and_then (tm_semaphore_create 0 (initial_state 1 0))
                 (\<lambda>_. tm_semaphore_get 0)) = Some TM_SUCCESS"
  by (simp add: tm_semaphore_create_static_def tm_semaphore_get_static_def
        tm_semaphore_create_def tm_semaphore_get_def
        table_defs kernel_defs observer_defs Let_def)

subsection \<open>Message queues\<close>

text \<open>
  The lemmas of this subsection and of the next are about \<^verbatim>\<open>src/unnamed/part_000\<close>
  alone, whose tables \<^verbatim>\<open>test_msgq\<close> and \<^verbatim>\<open>test_slab\<close> hold the control blocks themselves.
  They say nothing of \<^verbatim>\<open>src/src/tm_porting_layer_rtthread.c\<close>: that file declares
  \<^verbatim>\<open>rt_mq_t test_msgq[4]\<close> and \<^verbatim>\<open>rt_mp_t test_slab[4]\<close>, arrays of four handles, and hands
  \<^verbatim>\<open>&test_msgq[queue_id]\<close> and \<^verbatim>\<open>&test_slab[pool_id]\<close> to the kernel as the storage of a
  control block. A control block written there runs over the slots that follow and
  past the end of the array, so creating queue 1 overwrites queue 0, and no property
  of a round trip, of a full queue or of the capacity of a pool holds of that file.
\<close>

lemma tm_queue_create_empty:
  assumes "0 \<le> queue_id" "queue_id < 4"
  shows "\<exists>s1. tm_queue_create queue_id s = Returns TM_SUCCESS s1 \<and> queue_holds queue_id s1 []"
  using assms by (simp add: tm_queue_create_def queue_holds_def table_defs rt_mq_init_def)

lemma tm_queue_send_room:
  assumes "0 \<le> queue_id" "queue_id < 4" "queue_holds queue_id s ms" "length ms < 8"
  shows "\<exists>s1. tm_queue_send queue_id m s = Returns TM_SUCCESS s1 \<and>
           queue_holds queue_id s1 (ms @ [take 16 m])"
  using assms
  by (auto simp: tm_queue_send_def queue_holds_def table_defs rt_mq_send_def
        split: option.splits)

lemma tm_queue_send_full:
  assumes "0 \<le> queue_id" "queue_id < 4" "queue_holds queue_id s ms" "length ms = 8"
  shows "tm_queue_send queue_id m s = Returns TM_ERROR s"
  using assms
  by (auto simp: tm_queue_send_def queue_holds_def table_defs rt_mq_send_def
        split: option.splits)

lemma tm_queue_receive_empty:
  assumes "0 \<le> queue_id" "queue_id < 4" "queue_holds queue_id s []"
  shows "tm_queue_receive queue_id s = Returns (TM_ERROR, None) s"
  using assms
  by (auto simp: tm_queue_receive_def queue_holds_def table_defs rt_mq_recv_def
        split: option.splits)

lemma run_sends:
  assumes "0 \<le> queue_id" "queue_id < 4"
  shows "queue_holds queue_id s ms \<Longrightarrow> length ms + length new \<le> 8 \<Longrightarrow>
         \<exists>s1. run H (map (Queue_send queue_id) new) s =
                 Returns (replicate (length new) (Status TM_SUCCESS)) s1 \<and>
               queue_holds queue_id s1 (ms @ map (take 16) new)"
proof (induction new arbitrary: s ms)
  case Nil
  then show ?case by simp
next
  case (Cons m new)
  from Cons.prems have "length ms < 8" by simp
  from tm_queue_send_room [OF assms Cons.prems(1) this, of m]
  obtain s1 where s1: "tm_queue_send queue_id m s = Returns TM_SUCCESS s1"
    "queue_holds queue_id s1 (ms @ [take 16 m])" by blast
  from Cons.prems have "length (ms @ [take 16 m]) + length new \<le> 8" by simp
  from Cons.IH [OF s1(2) this]
  obtain s2 where s2: "run H (map (Queue_send queue_id) new) s1 =
      Returns (replicate (length new) (Status TM_SUCCESS)) s2"
    "queue_holds queue_id s2 ((ms @ [take 16 m]) @ map (take 16) new)" by blast
  from s1(1) s2 show ?case by (simp add: and_then_def)
qed

lemma mq_restore:
  assumes "k_mqs k a = Some q" "entries q = []"
  shows "k\<lparr>k_mqs := (k_mqs k)(a \<mapsto> q\<lparr>entries := []\<rparr>)\<rparr> = k"
proof -
  from assms(2) have "q\<lparr>entries := []\<rparr> = q" by (cases q) simp
  with assms(1) show ?thesis by (simp add: fun_upd_idem)
qed

text \<open>
  In \<^verbatim>\<open>src/unnamed/part_000\<close>, on a queue with a valid id that \<open>tm_queue_create\<close> made and
  that holds no message, \<open>tm_queue_send\<close> of 16 bytes succeeds and the \<open>tm_queue_receive\<close>
  that follows succeeds and stores the same 16 bytes; the state is then the one before
  the two calls.
\<close>

lemma tm_queue_round_trip:
  assumes "0 \<le> queue_id" "queue_id < 4" "length message = 16" "queue_holds queue_id s []"
  shows "\<exists>s1. tm_queue_send queue_id message s = Returns TM_SUCCESS s1 \<and>
           tm_queue_receive queue_id s1 = Returns (TM_SUCCESS, Some message) s"
  using assms
  by (auto simp: tm_queue_send_def tm_queue_receive_def queue_holds_def table_defs
        rt_mq_send_def rt_mq_recv_def mq_restore split: option.splits)

lemma tm_queue_round_trip_example:
  "\<exists>s0 s1.
     tm_queue_create 2 (initial_state 0 0) = Returns TM_SUCCESS s0 \<and>
     tm_queue_send 2 [1, 2, 3, 4, 5, 6, 7, 8, 9, 10, 11, 12, 13, 14, 15, 16] s0
       = Returns TM_SUCCESS s1 \<and>
     tm_queue_receive 2 s1
       = Returns (TM_SUCCESS, Some [1, 2, 3, 4, 5, 6, 7, 8, 9, 10, 11, 12, 13, 14, 15, 16]) s0"
proof -
  from tm_queue_create_empty [of 2 "initial_state 0 0"]
  obtain s0 where s0: "tm_queue_create 2 (initial_state 0 0) = Returns TM_SUCCESS s0"
    "queue_holds 2 s0 []" by auto
  from tm_queue_round_trip [of 2 "[1, 2, 3, 4, 5, 6, 7, 8, 9, 10, 11, 12, 13, 14, 15, 16]" s0]
    s0(2)
  obtain s1 where
    "tm_queue_send 2 [1, 2, 3, 4, 5, 6, 7, 8, 9, 10, 11, 12, 13, 14, 15, 16] s0
       = Returns TM_SUCCESS s1"
    "tm_queue_receive 2 s1
       = Returns (TM_SUCCESS, Some [1, 2, 3, 4, 5, 6, 7, 8, 9, 10, 11, 12, 13, 14, 15, 16]) s0"
    by auto
  with s0(1) show ?thesis by blast
qed

text \<open>
  In \<^verbatim>\<open>src/unnamed/part_000\<close>, on a queue with a valid id that \<open>tm_queue_create\<close> made and
  that holds no message, \<open>tm_queue_receive\<close> returns the error status at once, with
  nothing stored and the state unchanged; eight \<open>tm_queue_send\<close> in a row succeed, and
  the ninth returns the error status at once, with the state unchanged. Neither call
  blocks.
\<close>

lemma tm_queue_never_blocks:
  assumes "0 \<le> queue_id" "queue_id < 4" "queue_holds queue_id s []" "length ms = 8"
  shows "tm_queue_receive queue_id s = Returns (TM_ERROR, None) s \<and>
         (\<exists>s8. run H (map (Queue_send queue_id) ms) s = Returns (replicate 8 (Status TM_SUCCESS)) s8 \<and>
               tm_queue_send queue_id m s8 = Returns TM_ERROR s8)"
proof -
  from run_sends [OF assms(1,2), of s "[]" ms] assms(3,4)
  obtain s8 where s8:
    "run H (map (Queue_send queue_id) ms) s = Returns (replicate 8 (Status TM_SUCCESS)) s8"
    "queue_holds queue_id s8 (map (take 16) ms)" by auto
  from tm_queue_send_full [OF assms(1,2) s8(2)] assms(4)
  have "tm_queue_send queue_id m s8 = Returns TM_ERROR s8" by simp
  with s8(1) tm_queue_receive_empty [OF assms(1-3)] show ?thesis by blast
qed

lemma tm_queue_never_blocks_example:
  "\<exists>s0 s8.
     tm_queue_create 1 (initial_state 0 0) = Returns TM_SUCCESS s0 \<and>
     tm_queue_receive 1 s0 = Returns (TM_ERROR, None) s0 \<and>
     run H (map (Queue_send 1) (replicate 8 (replicate 16 7))) s0 =
       Returns (replicate 8 (Status TM_SUCCESS)) s8 \<and>
     tm_queue_send 1 (replicate 16 9) s8 = Returns TM_ERROR s8"
proof -
  from tm_queue_create_empty [of 1 "initial_state 0 0"]
  obtain s0 where s0: "tm_queue_create 1 (initial_state 0 0) = Returns TM_SUCCESS s0"
    "queue_holds 1 s0 []" by auto
  have "length (replicate 8 (replicate 16 (7 :: byte))) = 8" by simp
  from tm_queue_never_blocks [where H = H and m = "replicate 16 9", OF _ _ s0(2) this] s0(1)
  show ?thesis by auto
qed

subsection \<open>Memory pools\<close>

lemma create_pool:
  assumes "i < 4"
  shows "\<exists>s1. tm_memory_pool_create (int i) s = Returns TM_SUCCESS s1 \<and>
          pool_free i s1 (map (\<lambda>j. Slab_buf i (j * 128)) [0..<8])"
  using assms by (simp add: tm_memory_pool_create_def table_defs rt_mp_init_def pool_free_def)

lemma allocate_head:
  assumes "i < 4" "pool_free i s (b # bs)"
  shows "\<exists>s1. tm_memory_pool_allocate (int i) s = Returns (TM_SUCCESS, Some b) s1 \<and>
           pool_free i s1 bs \<and> k_owner (kern s1) = (k_owner (kern s))(b \<mapsto> Slab_slot i)"
  using assms
  by (auto simp: tm_memory_pool_allocate_def table_defs rt_mp_alloc_def pool_free_def
        split: option.splits)

lemma allocate_exhausted:
  assumes "i < 4" "pool_free i s []"
  shows "tm_memory_pool_allocate (int i) s = Returns (TM_ERROR, None) s"
  using assms
  by (auto simp: tm_memory_pool_allocate_def table_defs rt_mp_alloc_def pool_free_def
        split: option.splits)

lemma deallocate_owned:
  assumes "pool_free i s bs" "k_owner (kern s) b = Some (Slab_slot i)"
  shows "\<exists>s1. tm_memory_pool_deallocate pool_id (Some b) s = Returns TM_SUCCESS s1 \<and>
           pool_free i s1 (b # bs)"
  using assms
  by (auto simp: tm_memory_pool_deallocate_def rt_mp_free_def pool_free_def
        split: option.splits)

lemma run_allocates:
  assumes "i < 4"
  shows "pool_free i s (bs @ rest) \<Longrightarrow>
         \<exists>s1. run H (replicate (length bs) (Memory_pool_allocate (int i))) s =
                 Returns (map (\<lambda>b. Memory TM_SUCCESS (Some b)) bs) s1 \<and>
               pool_free i s1 rest \<and>
               (\<forall>x. x \<in> set bs \<or> k_owner (kern s) x = Some (Slab_slot i) \<longrightarrow>
                    k_owner (kern s1) x = Some (Slab_slot i))"
proof (induction bs arbitrary: s)
  case Nil
  then show ?case by simp
next
  case (Cons b bs)
  from Cons.prems have "pool_free i s (b # bs @ rest)" by simp
  from allocate_head [OF assms this]
  obtain s1 where s1: "tm_memory_pool_allocate (int i) s = Returns (TM_SUCCESS, Some b) s1"
    "pool_free i s1 (bs @ rest)" "k_owner (kern s1) = (k_owner (kern s))(b \<mapsto> Slab_slot i)"
    by blast
  from Cons.IH [OF s1(2)]
  obtain s2 where s2: "run H (replicate (length bs) (Memory_pool_allocate (int i))) s1 =
      Returns (map (\<lambda>b. Memory TM_SUCCESS (Some b)) bs) s2" "pool_free i s2 rest"
    "\<forall>x. x \<in> set bs \<or> k_owner (kern s1) x = Some (Slab_slot i) \<longrightarrow>
         k_owner (kern s2) x = Some (Slab_slot i)" by blast
  from s1(3) s2(3)
  have "\<forall>x. x \<in> set (b # bs) \<or> k_owner (kern s) x = Some (Slab_slot i) \<longrightarrow>
         k_owner (kern s2) x = Some (Slab_slot i)" by auto
  with s1(1) s2(1,2) show ?case by (simp add: and_then_def)
qed

text \<open>
  In \<^verbatim>\<open>src/unnamed/part_000\<close>, for a valid pool id, \<open>tm_memory_pool_create\<close> succeeds, the eight
  \<open>tm_memory_pool_allocate\<close> that follow succeed and hand out the eight blocks of the
  buffer, 128 bytes apart, and a ninth returns the error status with the null pointer
  stored and the state unchanged. After \<open>tm_memory_pool_deallocate\<close> of any one of the
  eight blocks the next allocation succeeds and hands out that block, and the one
  after it fails again.
\<close>

lemma tm_memory_pool_capacity:
  assumes "0 \<le> pool_id" "pool_id < 4"
  shows "\<exists>s1 s8.
     tm_memory_pool_create pool_id s = Returns TM_SUCCESS s1 \<and>
     run H (replicate 8 (Memory_pool_allocate pool_id)) s1 =
       Returns (map (\<lambda>j. Memory TM_SUCCESS (Some (Slab_buf (nat pool_id) (j * 128)))) [0..<8]) s8 \<and>
     tm_memory_pool_allocate pool_id s8 = Returns (TM_ERROR, None) s8 \<and>
     (\<forall>j<8. \<exists>s9 s10.
        tm_memory_pool_deallocate pool_id (Some (Slab_buf (nat pool_id) (j * 128))) s8 =
          Returns TM_SUCCESS s9 \<and>
        tm_memory_pool_allocate pool_id s9 =
          Returns (TM_SUCCESS, Some (Slab_buf (nat pool_id) (j * 128))) s10 \<and>
        tm_memory_pool_allocate pool_id s10 = Returns (TM_ERROR, None) s10)"
proof -
  define i where "i = nat pool_id"
  with assms have i: "i < 4" and id: "pool_id = int i" by simp_all
  let ?bs = "map (\<lambda>j. Slab_buf i (j * 128)) [0..<8]"
  from create_pool [OF i, of s]
  obtain s1 where s1: "tm_memory_pool_create (int i) s = Returns TM_SUCCESS s1"
    "pool_free i s1 ?bs" by blast
  from run_allocates [OF i, where s = s1 and bs = ?bs and rest = "[]" and H = H] s1(2)
  obtain s8 where s8: "run H (replicate 8 (Memory_pool_allocate (int i))) s1 =
      Returns (map (\<lambda>b. Memory TM_SUCCESS (Some b)) ?bs) s8" "pool_free i s8 []"
    "\<forall>x. x \<in> set ?bs \<longrightarrow> k_owner (kern s8) x = Some (Slab_slot i)"
    by auto
  have again: "\<exists>s9 s10.
        tm_memory_pool_deallocate (int i) (Some (Slab_buf i (j * 128))) s8 =
          Returns TM_SUCCESS s9 \<and>
        tm_memory_pool_allocate (int i) s9 =
          Returns (TM_SUCCESS, Some (Slab_buf i (j * 128))) s10 \<and>
        tm_memory_pool_allocate (int i) s10 = Returns (TM_ERROR, None) s10" if "j < 8" for j
  proof -
    from that have "Slab_buf i (j * 128) \<in> set ?bs" by simp
    with s8(3) have "k_owner (kern s8) (Slab_buf i (j * 128)) = Some (Slab_slot i)" by blast
    from deallocate_owned [OF s8(2) this]
    obtain s9 where s9: "tm_memory_pool_deallocate (int i) (Some (Slab_buf i (j * 128))) s8 =
        Returns TM_SUCCESS s9" "pool_free i s9 [Slab_buf i (j * 128)]" by blast
    from allocate_head [OF i s9(2)]
    obtain s10 where s10: "tm_memory_pool_allocate (int i) s9 =
        Returns (TM_SUCCESS, Some (Slab_buf i (j * 128))) s10" "pool_free i s10 []" by blast
    from s9(1) s10(1) allocate_exhausted [OF i s10(2)] show ?thesis by blast
  qed
  from s8(1) have "run H (replicate 8 (Memory_pool_allocate (int i))) s1 =
      Returns (map (\<lambda>j. Memory TM_SUCCESS (Some (Slab_buf i (j * 128)))) [0..<8]) s8"
    by (simp add: comp_def)
  with s1(1) allocate_exhausted [OF i s8(2)] again show ?thesis
    unfolding id by (simp only: nat_int) blast
qed

lemma tm_memory_pool_capacity_example:
  "\<exists>s1 s8 s9 s10.
     tm_memory_pool_create 3 (initial_state 0 0) = Returns TM_SUCCESS s1 \<and>
     run H (replicate 8 (Memory_pool_allocate 3)) s1 =
       Returns [Memory TM_SUCCESS (Some (Slab_buf 3 0)), Memory TM_SUCCESS (Some (Slab_buf 3 128)),
                Memory TM_SUCCESS (Some (Slab_buf 3 256)), Memory TM_SUCCESS (Some (Slab_buf 3 384)),
                Memory TM_SUCCESS (Some (Slab_buf 3 512)), Memory TM_SUCCESS (Some (Slab_buf 3 640)),
                Memory TM_SUCCESS (Some (Slab_buf 3 768)), Memory TM_SUCCESS (Some (Slab_buf 3 896))]
         s8 \<and>
     tm_memory_pool_allocate 3 s8 = Returns (TM_ERROR, None) s8 \<and>
     tm_memory_pool_deallocate 3 (Some (Slab_buf 3 640)) s8 = Returns TM_SUCCESS s9 \<and>
     tm_memory_pool_allocate 3 s9 = Returns (TM_SUCCESS, Some (Slab_buf 3 640)) s10 \<and>
     tm_memory_pool_allocate 3 s10 = Returns (TM_ERROR, None) s10"
proof -
  from tm_memory_pool_capacity [where pool_id = 3 and s = "initial_state 0 0" and H = H]
  obtain s1 s8 where a:
    "tm_memory_pool_create 3 (initial_state 0 0) = Returns TM_SUCCESS s1"
    "run H (replicate 8 (Memory_pool_allocate 3)) s1 =
       Returns (map (\<lambda>j. Memory TM_SUCCESS (Some (Slab_buf (nat 3) (j * 128)))) [0..<8]) s8"
    "tm_memory_pool_allocate 3 s8 = Returns (TM_ERROR, None) s8"
    "\<forall>j<8. \<exists>s9 s10.
        tm_memory_pool_deallocate 3 (Some (Slab_buf (nat 3) (j * 128))) s8 =
          Returns TM_SUCCESS s9 \<and>
        tm_memory_pool_allocate 3 s9 =
          Returns (TM_SUCCESS, Some (Slab_buf (nat 3) (j * 128))) s10 \<and>
        tm_memory_pool_allocate 3 s10 = Returns (TM_ERROR, None) s10"
    by auto
  from a(4) have "\<exists>s9 s10.
        tm_memory_pool_deallocate 3 (Some (Slab_buf (nat 3) (5 * 128))) s8 =
          Returns TM_SUCCESS s9 \<and>
        tm_memory_pool_allocate 3 s9 =
          Returns (TM_SUCCESS, Some (Slab_buf (nat 3) (5 * 128))) s10 \<and>
        tm_memory_pool_allocate 3 s10 = Returns (TM_ERROR, None) s10"
    by (rule allE [of _ 5]) simp
  then obtain s9 s10 where b:
    "tm_memory_pool_deallocate 3 (Some (Slab_buf 3 640)) s8 = Returns TM_SUCCESS s9"
    "tm_memory_pool_allocate 3 s9 = Returns (TM_SUCCESS, Some (Slab_buf 3 640)) s10"
    "tm_memory_pool_allocate 3 s10 = Returns (TM_ERROR, None) s10"
    by auto
  from a(2) have "run H (replicate 8 (Memory_pool_allocate 3)) s1 =
       Returns [Memory TM_SUCCESS (Some (Slab_buf 3 0)), Memory TM_SUCCESS (Some (Slab_buf 3 128)),
                Memory TM_SUCCESS (Some (Slab_buf 3 256)), Memory TM_SUCCESS (Some (Slab_buf 3 384)),
                Memory TM_SUCCESS (Some (Slab_buf 3 512)), Memory TM_SUCCESS (Some (Slab_buf 3 640)),
                Memory TM_SUCCESS (Some (Slab_buf 3 768)), Memory TM_SUCCESS (Some (Slab_buf 3 896))]
         s8"
    by (simp add: upt_rec)
  with a(1,3) b show ?thesis by blast
qed

end
